theory Spec2Isabelle
  imports Complex_Main
begin

section \<open>JavaScript values, errors and the validation issues of the schema\<close>

text \<open>
  The client (\<^verbatim>\<open>src/quirrel/src/client/index.ts\<close>) is modelled function by function.
  A JavaScript number is a \<open>real\<close> (\<open>NaN\<close> and the infinities are left out), a
  \<open>Date\<close> is its time value in milliseconds (an \<open>int\<close>), a string is a \<open>string\<close>.
  \<open>throw\<close> is the left injection of a sum; an optional property is an \<open>option\<close>.
\<close>

datatype js =
    JUndefined
  | JNull
  | JBool bool
  | JNum real
  | JStr string
  | JObj "(string \<times> js) list"
  | JArr "js list"

text \<open>The \<^verbatim>\<open>typeof\<close> operator on the values above.\<close>

fun typeof :: "js \<Rightarrow> string" where
  "typeof JUndefined = ''undefined''"
| "typeof JNull = ''object''"
| "typeof (JBool b) = ''boolean''"
| "typeof (JNum n) = ''number''"
| "typeof (JStr s) = ''string''"
| "typeof (JObj kvs) = ''object''"
| "typeof (JArr vs) = ''object''"

text \<open>
  A zod issue is kept as its path and its message; a \<^verbatim>\<open>ZodError\<close> carries the issues
  of a failed \<^verbatim>\<open>parse\<close> in the order of the schema's keys.
\<close>

datatype key = Key string | Index nat

type_synonym issue = "key list \<times> string"

datatype error = Error string | TypeError string | ZodError "issue list"

section \<open>Regular expressions of the source\<close>

text \<open>
  The anchored regular expression of \<^verbatim>\<open>vercelMs\<close> is written as a term and matched by
  derivatives, so that the pattern can be compared with the source literal.
\<close>

datatype rexp =
    Zero
  | One
  | Atom "char \<Rightarrow> bool"
  | Alt rexp rexp
  | Seq rexp rexp
  | Star rexp

primrec nullable :: "rexp \<Rightarrow> bool" where
  "nullable Zero = False"
| "nullable One = True"
| "nullable (Atom p) = False"
| "nullable (Alt r s) = (nullable r \<or> nullable s)"
| "nullable (Seq r s) = (nullable r \<and> nullable s)"
| "nullable (Star r) = True"

primrec deriv :: "char \<Rightarrow> rexp \<Rightarrow> rexp" where
  "deriv c Zero = Zero"
| "deriv c One = Zero"
| "deriv c (Atom p) = (if p c then One else Zero)"
| "deriv c (Alt r s) = Alt (deriv c r) (deriv c s)"
| "deriv c (Seq r s) =
     (if nullable r then Alt (Seq (deriv c r) s) (deriv c s) else Seq (deriv c r) s)"
| "deriv c (Star r) = Seq (deriv c r) (Star r)"

primrec matches :: "rexp \<Rightarrow> string \<Rightarrow> bool" where
  "matches r [] = nullable r"
| "matches r (c # cs) = matches (deriv c r) cs"

definition Opt :: "rexp \<Rightarrow> rexp" where
  "Opt r = Alt One r"

definition Plus :: "rexp \<Rightarrow> rexp" where
  "Plus r = Seq r (Star r)"

definition chr :: "char \<Rightarrow> rexp" where
  "chr c = Atom (\<lambda>d. d = c)"

text \<open>\<^verbatim>\<open>\d\<close> without the \<^verbatim>\<open>u\<close> flag: the ten ASCII digits.\<close>

definition isDigit :: "char \<Rightarrow> bool" where
  "isDigit c = (c \<in> set ''0123456789'')"

definition digit :: rexp where
  "digit = Atom isDigit"

text \<open>
  The \<^verbatim>\<open>i\<close> flag: two characters match when their case foldings agree. On the ASCII
  letters of the pattern that is equality of the lower-case letters; a character outside
  ASCII never folds to an ASCII letter (ECMAScript's Canonicalize keeps it).
\<close>

definition toLowerCase :: "char \<Rightarrow> char" where
  "toLowerCase c =
     (case map_of (zip ''ABCDEFGHIJKLMNOPQRSTUVWXYZ'' ''abcdefghijklmnopqrstuvwxyz'') c of
        Some l \<Rightarrow> l
      | None \<Rightarrow> c)"

definition chr_i :: "char \<Rightarrow> rexp" where
  "chr_i c = Atom (\<lambda>d. toLowerCase d = toLowerCase c)"

definition word_i :: "string \<Rightarrow> rexp" where
  "word_i w = foldr (\<lambda>c r. Seq (chr_i c) r) w One"

definition alts :: "rexp list \<Rightarrow> rexp" where
  "alts rs = foldr Alt rs Zero"

text \<open>
  \<^verbatim>\<open>milliseconds?|msecs?|ms|seconds?|secs?|s|minutes?|mins?|m|hours?|hrs?|h|days?|d|weeks?|w|years?|yrs?|y\<close>
\<close>

definition ms_units :: rexp where
  "ms_units = alts
     [Seq (word_i ''millisecond'') (Opt (chr_i CHR ''s'')),
      Seq (word_i ''msec'') (Opt (chr_i CHR ''s'')),
      word_i ''ms'',
      Seq (word_i ''second'') (Opt (chr_i CHR ''s'')),
      Seq (word_i ''sec'') (Opt (chr_i CHR ''s'')),
      word_i ''s'',
      Seq (word_i ''minute'') (Opt (chr_i CHR ''s'')),
      Seq (word_i ''min'') (Opt (chr_i CHR ''s'')),
      word_i ''m'',
      Seq (word_i ''hour'') (Opt (chr_i CHR ''s'')),
      Seq (word_i ''hr'') (Opt (chr_i CHR ''s'')),
      word_i ''h'',
      Seq (word_i ''day'') (Opt (chr_i CHR ''s'')),
      word_i ''d'',
      Seq (word_i ''week'') (Opt (chr_i CHR ''s'')),
      word_i ''w'',
      Seq (word_i ''year'') (Opt (chr_i CHR ''s'')),
      Seq (word_i ''yr'') (Opt (chr_i CHR ''s'')),
      word_i ''y'']"

text \<open>
  \<^verbatim>\<open>/^(-?(?:\d+)?\.?\d+) *(...units...)?$/i\<close>
\<close>

definition vercelMs_regex :: rexp where
  "vercelMs_regex =
     Seq (Seq (Opt (chr CHR ''-''))
           (Seq (Opt (Plus digit)) (Seq (Opt (chr CHR ''.'')) (Plus digit))))
         (Seq (Star (chr CHR '' '')) (Opt ms_units))"

section \<open>The duration schema and \<open>parseDuration\<close>\<close>

datatype duration = Num real | Str string

text \<open>
  \<^verbatim>\<open>vercelMs = z.string().regex(...)\<close>: the issues of a string against the pattern.
\<close>

definition vercelMs_message :: string where
  "vercelMs_message =
     ''Please provide a valid time span, according to https://github.com/vercel/ms''"

definition vercelMs :: "key list \<Rightarrow> string \<Rightarrow> issue list" where
  "vercelMs path s =
     (if matches vercelMs_regex s then [] else [(path, vercelMs_message)])"

text \<open>
  \<^verbatim>\<open>timeDuration(fieldName) = z.union([z.number().min(1, ...), vercelMs])\<close>. A number is
  checked by the first member (\<open>min\<close> is inclusive), a string by the second; the union
  reports the issue of the member whose type matched.
\<close>

definition timeDuration :: "string \<Rightarrow> key list \<Rightarrow> duration \<Rightarrow> issue list" where
  "timeDuration fieldName path v =
     (case v of
        Num n \<Rightarrow> (if 1 \<le> n then [] else [(path, fieldName @ '' must be positive'')])
      | Str s \<Rightarrow> vercelMs path s)"

text \<open>\<^verbatim>\<open>.optional()\<close>: an absent property has no issue.\<close>

definition optional :: "('a \<Rightarrow> issue list) \<Rightarrow> 'a option \<Rightarrow> issue list" where
  "optional schema v = (case v of None \<Rightarrow> [] | Some x \<Rightarrow> schema x)"

text \<open>
  \<^verbatim>\<open>parseDuration\<close> (lines 211-221). \<^verbatim>\<open>!value\<close> holds of \<^verbatim>\<open>undefined\<close>, of the number
  \<open>0\<close> and of the empty string. The package \<^verbatim>\<open>ms\<close> is not part of the repository: its
  function is the parameter \<open>ms\<close>, whose result \<open>None\<close> is \<^verbatim>\<open>undefined\<close>.
\<close>

definition parseDuration :: "(string \<Rightarrow> real option) \<Rightarrow> duration option \<Rightarrow> real option" where
  "parseDuration ms v =
     (case v of
        None \<Rightarrow> None
      | Some (Num n) \<Rightarrow> (if n = 0 then None else Some n)
      | Some (Str s) \<Rightarrow> (if s = [] then None else ms s))"

section \<open>Collaborators outside the repository\<close>

text \<open>
  An \<^verbatim>\<open>Encryptor\<close> of the package \<^verbatim>\<open>secure-e2ee\<close>, as \<^verbatim>\<open>getEncryptor\<close> constructs it:
  \<^verbatim>\<open>new Encryptor(encryptionSecret, [encryptionSecret, ...oldSecrets])\<close>.
\<close>

record Encryptor =
  encryptionKey :: string
  decryptionKeys :: "string list"

text \<open>
  The functions of packages and built-ins that the client calls are parameters of the
  model: \<^verbatim>\<open>ms\<close>, \<^verbatim>\<open>EnhancedJSON.stringify\<close> and \<^verbatim>\<open>EnhancedJSON.parse\<close>, the methods
  \<^verbatim>\<open>encrypt\<close> and \<^verbatim>\<open>decrypt\<close> of an \<^verbatim>\<open>Encryptor\<close> (\<^verbatim>\<open>decrypt\<close> throws when it fails),
  \<^verbatim>\<open>verify\<close> of \<^verbatim>\<open>secure-webhooks\<close>, \<^verbatim>\<open>JSON.parse\<close>, \<^verbatim>\<open>String(error)\<close> and the environment
  variable \<^verbatim>\<open>NODE_ENV\<close>.
\<close>

record externals =
  ms :: "string \<Rightarrow> real option"
  EnhancedJSON_stringify :: "js \<Rightarrow> string"
  EnhancedJSON_parse :: "string \<Rightarrow> error + js"
  Encryptor_encrypt :: "Encryptor \<Rightarrow> string \<Rightarrow> string"
  Encryptor_decrypt :: "Encryptor \<Rightarrow> string \<Rightarrow> error + string"
  verify :: "string \<Rightarrow> string option \<Rightarrow> string \<Rightarrow> bool"
  JSON_parse :: "string \<Rightarrow> error + js"
  String :: "error \<Rightarrow> string"
  NODE_ENV :: "string option"

text \<open>
  \<^verbatim>\<open>getEncryptor\<close> (lines 227-236): no encryptor without a secret (\<^verbatim>\<open>undefined\<close> or the
  empty string); otherwise the active secret followed by the old secrets.
\<close>

definition getEncryptor :: "string option \<Rightarrow> string list \<Rightarrow> Encryptor option" where
  "getEncryptor encryptionSecret oldSecrets =
     (case encryptionSecret of
        None \<Rightarrow> None
      | Some secret \<Rightarrow>
          (if secret = [] then None
           else Some \<lparr>encryptionKey = secret, decryptionKeys = secret # oldSecrets\<rparr>))"

section \<open>The options schema\<close>

subsection \<open>Cron expressions\<close>

text \<open>
  Modelled from the spec: the syntax that the helper \<^verbatim>\<open>isValidRegex\<close> (not under src/)
  checks. Section 4.2, rule 7 asks for a syntactically well-formed cron expression of five
  fields. A number is a run of digits.
\<close>

definition cron_number :: rexp where
  "cron_number = Plus digit"

text \<open>
  Modelled from the spec: an item of a cron field is \<^verbatim>\<open>*\<close>, a number or a range of two
  numbers, with an optional step.
\<close>

definition cron_item :: rexp where
  "cron_item =
     Seq (Alt (chr CHR ''*'') (Seq cron_number (Opt (Seq (chr CHR ''-'') cron_number))))
         (Opt (Seq (chr CHR ''/'') cron_number))"

text \<open>Modelled from the spec: a cron field is a comma-separated list of items.\<close>

definition cron_field :: rexp where
  "cron_field = Seq cron_item (Star (Seq (chr CHR '','') cron_item))"

text \<open>Modelled from the spec: the fields of a cron expression are separated by spaces.\<close>

definition cron_gap :: rexp where
  "cron_gap = Plus (chr CHR '' '')"

text \<open>
  Modelled from the spec: the helper \<^verbatim>\<open>isValidRegex\<close> of \<^verbatim>\<open>../shared/is-valid-regex\<close>,
  which the schema \<^verbatim>\<open>cron\<close> refines with, is not under src/. Section 4.2, rule 7: the
  string is a syntactically well-formed cron expression of five fields.
\<close>

definition isValidRegex :: "string \<Rightarrow> bool" where
  "isValidRegex s =
     matches
       (Seq cron_field (Seq cron_gap (Seq cron_field (Seq cron_gap (Seq cron_field
         (Seq cron_gap (Seq cron_field (Seq cron_gap cron_field))))))))
       s"

definition cron_message :: string where
  "cron_message =
     ''Please provide a valid Cron expression. See https://github.com/harrisiirak/cron-parser for reference''"

text \<open>\<^verbatim>\<open>cron = z.string().refine(isValidRegex, ...)\<close> (lines 90-95).\<close>

definition cron_schema :: "key list \<Rightarrow> string \<Rightarrow> issue list" where
  "cron_schema path s = (if isValidRegex s then [] else [(path, cron_message)])"

subsection \<open>\<open>EnqueueJobOptions\<close> and its schema\<close>

text \<open>
  A job id is a string or a number; the numbers in use are the store's integer ids.
\<close>

datatype JobId = IdString string | IdNumber int

record repeat_options =
  every :: "duration option"
  times_opt :: "real option"
  cron :: "string option"

record EnqueueJobOptions =
  job_id :: "JobId option"
  exclusive :: "bool option"
  override :: "bool option"
  retry :: "duration list option"
  delay :: "duration option"
  runAt :: "int option"
  repeat :: "repeat_options option"

text \<open>
  \<^verbatim>\<open>z.array(timeDuration("retry")).min(1).max(10)\<close>: the length issues of the array, then
  the issues of its elements.
\<close>

definition retry_schema :: "key list \<Rightarrow> duration list \<Rightarrow> issue list" where
  "retry_schema path rs =
     (if length rs < 1 then [(path, ''Array must contain at least 1 element(s)'')] else []) @
     (if 10 < length rs then [(path, ''Array must contain at most 10 element(s)'')] else []) @
     concat (map (\<lambda>(i, r). timeDuration ''retry'' (path @ [Index i]) r) (enumerate 0 rs))"

text \<open>
  \<^verbatim>\<open>z.date().refine((date) => Date.now() <= +date, ...)\<close>; \<open>now\<close> is what \<^verbatim>\<open>Date.now()\<close>
  returns when the refinement runs.
\<close>

definition runAt_schema :: "int \<Rightarrow> key list \<Rightarrow> int \<Rightarrow> issue list" where
  "runAt_schema now path date =
     (if now \<le> date then [] else [(path, ''runAt must not be in the past'')])"

definition times_schema :: "key list \<Rightarrow> real \<Rightarrow> issue list" where
  "times_schema path n =
     (if 0 \<le> n then [] else [(path, ''Number must be greater than or equal to 0'')])"

definition repeat_schema :: "key list \<Rightarrow> repeat_options \<Rightarrow> issue list" where
  "repeat_schema path r =
     optional (timeDuration ''every'' (path @ [Key ''every''])) (every r) @
     optional (times_schema (path @ [Key ''times''])) (times_opt r) @
     optional (cron_schema (path @ [Key ''cron''])) (cron r)"

text \<open>
  \<^verbatim>\<open>EnqueueJobOptionsSchema\<close> (lines 97-116), in the order of its keys. The properties
  \<^verbatim>\<open>id\<close>, \<^verbatim>\<open>exclusive\<close> and \<^verbatim>\<open>override\<close> are well typed in the record and raise no issue.
\<close>

definition EnqueueJobOptionsSchema :: "int \<Rightarrow> EnqueueJobOptions \<Rightarrow> issue list" where
  "EnqueueJobOptionsSchema now options =
     optional (retry_schema [Key ''retry'']) (retry options) @
     optional (timeDuration ''delay'' [Key ''delay'']) (delay options) @
     optional (runAt_schema now [Key ''runAt'']) (runAt options) @
     optional (repeat_schema [Key ''repeat'']) (repeat options)"

text \<open>\<^verbatim>\<open>EnqueueJobOptionsSchema.parse\<close>: the options, or a \<^verbatim>\<open>ZodError\<close> with every issue.\<close>

definition EnqueueJobOptionsSchema_parse :: "int \<Rightarrow> EnqueueJobOptions \<Rightarrow> error + EnqueueJobOptions" where
  "EnqueueJobOptionsSchema_parse now options =
     (case EnqueueJobOptionsSchema now options of
        [] \<Rightarrow> Inr options
      | issues \<Rightarrow> Inl (ZodError issues))"

section \<open>The client\<close>

record DefaultJobOptions =
  default_exclusive :: "bool option"
  default_retry :: "duration list option"

text \<open>The metadata handed to the handler: five properties of the parsed header.\<close>

record JobMeta =
  meta_id :: js
  meta_count :: js
  meta_retry :: js
  meta_nextRepetition :: js
  meta_exclusive :: js

text \<open>
  The fields of a \<^verbatim>\<open>QuirrelClient\<close> that the methods read. The handler is the user's
  function: it returns normally (\<open>Inr ()\<close>) or raises. \<open>catchDecryptionErrors\<close> tells
  whether the caller installed that callback; what it was called with is recorded in the
  state below.
\<close>

record client =
  handler :: "js \<Rightarrow> JobMeta \<Rightarrow> error + unit"
  route :: string
  defaultJobOptions :: "DefaultJobOptions option"
  encryptor :: "Encryptor option"
  applicationBaseUrl :: string
  databaseUrl :: "string option"
  token :: "string option"
  catchDecryptionErrors :: bool

subsection \<open>\<open>payloadAndOptionsToBody\<close>\<close>

record request_body =
  b_exclusive :: "bool option"
  b_body :: string
  b_delay :: "real option"
  b_id :: "JobId option"
  b_repeat :: "repeat_options option"
  b_retry :: "real option list option"
  b_override :: "bool option"

text \<open>\<^verbatim>\<open>runAtToDelay\<close> (lines 223-225); \<open>now\<close> is \<^verbatim>\<open>Date.now()\<close> at the call.\<close>

definition runAtToDelay :: "int \<Rightarrow> int \<Rightarrow> real" where
  "runAtToDelay now v = real_of_int (v - now)"

text \<open>
  \<^verbatim>\<open>payloadAndOptionsToBody\<close> (lines 375-414). The clock is read twice: \<open>now_parse\<close> by
  the refinement of \<^verbatim>\<open>runAt\<close> inside \<^verbatim>\<open>parse\<close>, \<open>now_delay\<close> by \<^verbatim>\<open>runAtToDelay\<close>
  afterwards. The spread of \<^verbatim>\<open>defaultJobOptions\<close> contributes \<^verbatim>\<open>exclusive\<close>; its \<^verbatim>\<open>retry\<close>
  is overwritten by the \<^verbatim>\<open>retry\<close> property written after it.
\<close>

definition payloadAndOptionsToBody ::
  "client \<Rightarrow> externals \<Rightarrow> int \<Rightarrow> int \<Rightarrow> js \<Rightarrow> EnqueueJobOptions \<Rightarrow> error + request_body" where
  "payloadAndOptionsToBody c ext now_parse now_delay payload options =
     (if payload = JUndefined then
        Inl (Error (''Passing '' @ [CHR 0x60] @ ''undefined'' @ [CHR 0x60] @ '' as Payload is not allowed''))
      else if repeat options \<noteq> None \<and> (case retry options of None \<Rightarrow> False | Some rs \<Rightarrow> length rs \<noteq> 0) then
        Inl (Error ''retry and repeat cannot be used together'')
      else
        (case EnqueueJobOptionsSchema_parse now_parse options of
           Inl e \<Rightarrow> Inl e
         | Inr options \<Rightarrow>
             let delay0 = parseDuration (ms ext) (delay options);
                 delay1 = (case runAt options of
                             Some date \<Rightarrow> Some (runAtToDelay now_delay date)
                           | None \<Rightarrow> delay0);
                 repeat1 = (case repeat options of
                              Some r \<Rightarrow>
                                Some (r\<lparr>every := map_option Num (parseDuration (ms ext) (every r))\<rparr>)
                            | None \<Rightarrow> None);
                 stringifiedBody0 = EnhancedJSON_stringify ext payload;
                 stringifiedBody = (case encryptor c of
                                      Some e \<Rightarrow> Encryptor_encrypt ext e stringifiedBody0
                                    | None \<Rightarrow> stringifiedBody0)
             in Inr \<lparr>b_exclusive =
                       (case defaultJobOptions c of
                          Some d \<Rightarrow> default_exclusive d
                        | None \<Rightarrow> None),
                     b_body = stringifiedBody,
                     b_delay = delay1,
                     b_id = job_id options,
                     b_repeat = repeat1,
                     b_retry = map_option (map (\<lambda>r. parseDuration (ms ext) (Some r))) (retry options),
                     b_override = override options\<rparr>))"

section \<open>The registry\<close>

text \<open>
  A row of the table \<^verbatim>\<open>job\<close> (\<^verbatim>\<open>schema.prisma\<close>) with the columns the client reads or
  writes; the node, database and user columns take their defaults and are left out.
\<close>

record job_row =
  jobid :: int
  schedule :: string
  command :: string
  jobname :: string
  active :: bool

datatype log = Log string | LogValue string js | LogError error

text \<open>
  What the methods change: the table and its id sequence, the lines written to the
  console, the errors handed to \<^verbatim>\<open>catchDecryptionErrors\<close>, and the calls of the handler.
\<close>

record world =
  job_table :: "job_row list"
  next_jobid :: int
  console :: "log list"
  caught :: "error list"
  handled :: "(js \<times> JobMeta) list"

text \<open>The getter \<^verbatim>\<open>prisma\<close> (lines 305-319) throws without a database URL.\<close>

definition prisma :: "client \<Rightarrow> error + unit" where
  "prisma c =
     (case databaseUrl c of
        None \<Rightarrow> Inl (Error ''Missing required QUIRREL_DATABASE_URL'')
      | Some url \<Rightarrow>
          (if url = [] then Inl (Error ''Missing required QUIRREL_DATABASE_URL'') else Inr ()))"

text \<open>\<^verbatim>\<open>prisma.job.deleteMany({ where })\<close>: removes the matching rows and counts them.\<close>

definition deleteMany :: "(job_row \<Rightarrow> bool) \<Rightarrow> world \<Rightarrow> nat \<times> world" where
  "deleteMany wh w =
     (length (filter wh (job_table w)),
      w\<lparr>job_table := filter (\<lambda>j. \<not> wh j) (job_table w)\<rparr>)"

text \<open>
  The SQL function \<^verbatim>\<open>cron.schedule(name, schedule, command)\<close> that \<^verbatim>\<open>enqueue\<close> calls through
  \<^verbatim>\<open>$queryRaw\<close> is the scheduler extension's, outside the repository. On the table it
  creates a row with the name, the schedule and the command and returns the row's id, the
  next value of the sequence of \<^verbatim>\<open>jobid\<close> (\<^verbatim>\<open>schema.prisma\<close>: \<^verbatim>\<open>autoincrement()\<close>).
\<close>

definition cron_schedule :: "string \<Rightarrow> string \<Rightarrow> string \<Rightarrow> world \<Rightarrow> int \<times> world" where
  "cron_schedule name sched cmd w =
     (next_jobid w,
      w\<lparr>job_table := job_table w @
           [\<lparr>jobid = next_jobid w, schedule = sched, command = cmd, jobname = name, active = True\<rparr>],
        next_jobid := next_jobid w + 1\<rparr>)"

subsection \<open>Strings of the SQL action\<close>

text \<open>A number inside a template literal prints in decimal.\<close>

fun digits_of :: "nat \<Rightarrow> string \<Rightarrow> string" where
  "digits_of n acc =
     (if n < 10 then (''0123456789'' ! n) # acc
      else digits_of (n div 10) ((''0123456789'' ! (n mod 10)) # acc))"

definition decimal :: "nat \<Rightarrow> string" where
  "decimal n = digits_of n []"

definition decimal_int :: "int \<Rightarrow> string" where
  "decimal_int i = (if 0 \<le> i then decimal (nat i) else CHR ''-'' # decimal (nat (- i)))"

definition nl :: string where
  "nl = [CHR 0x0A]"

definition sq :: string where
  "sq = [CHR 0x27]"

definition dq :: string where
  "dq = [CHR 0x22]"

definition spaces :: "nat \<Rightarrow> string" where
  "spaces n = replicate n CHR '' ''"

fun join :: "string \<Rightarrow> string list \<Rightarrow> string" where
  "join sep [] = []"
| "join sep [x] = x"
| "join sep (x # y # ys) = x @ sep @ join sep (y # ys)"

text \<open>
  \<^verbatim>\<open>httpRequestSQL\<close> (lines 120-135). \<open>body\<close> is \<^verbatim>\<open>JSON.stringify(body)\<close>. The callback of
  \<^verbatim>\<open>map\<close> receives the entry and its index, so \<^verbatim>\<open>k\<close> prints as the key and the value
  joined by a comma and \<^verbatim>\<open>v\<close> as the index.
\<close>

definition httpRequestSQL :: "string \<Rightarrow> string \<Rightarrow> string \<Rightarrow> (string \<times> string) list \<Rightarrow> string" where
  "httpRequestSQL url method body headers =
     ''http(('' @ nl @
     spaces 4 @ sq @ method @ sq @ '','' @ nl @
     spaces 4 @ sq @ url @ sq @ '','' @ nl @
     spaces 4 @ ''ARRAY['' @
       join '',''
         (map (\<lambda>(i, (k, v)). ''http_header('' @ sq @ k @ '','' @ v @ sq @ '','' @ sq @ decimal i @ sq @ '')'')
            (enumerate 0 headers)) @
       ''],'' @ nl @
     spaces 4 @ sq @ ''application/json'' @ sq @ '','' @ nl @
     spaces 4 @ sq @ body @ sq @ nl @
     spaces 2 @ '')::http_request)''"

subsection \<open>Reading a row back\<close>

text \<open>
  The search \<^verbatim>\<open>command.match(/'(https?:\/\/.*?)'/)?.[1]\<close>: the leftmost position where a
  quote is followed by \<^verbatim>\<open>http://\<close> or \<^verbatim>\<open>https://\<close> and, lazily, by characters other than
  line terminators up to the next quote; the capture is the text between the quotes.
\<close>

fun until_quote :: "string \<Rightarrow> string option" where
  "until_quote [] = None"
| "until_quote (c # cs) =
     (if c = CHR 0x27 then Some []
      else if c = CHR 0x0A \<or> c = CHR 0x0D then None
      else map_option (\<lambda>t. c # t) (until_quote cs))"

definition starts_with :: "string \<Rightarrow> string \<Rightarrow> bool" where
  "starts_with p s = (take (length p) s = p)"

definition endpoint_here :: "string \<Rightarrow> string option" where
  "endpoint_here s =
     (if starts_with (sq @ ''https://'') s then
        map_option (\<lambda>t. ''https://'' @ t) (until_quote (drop 9 s))
      else if starts_with (sq @ ''http://'') s then
        map_option (\<lambda>t. ''http://'' @ t) (until_quote (drop 8 s))
      else None)"

fun endpoint_match :: "string \<Rightarrow> string option" where
  "endpoint_match [] = None"
| "endpoint_match (c # cs) =
     (case endpoint_here (c # cs) of
        Some e \<Rightarrow> Some e
      | None \<Rightarrow> endpoint_match cs)"

text \<open>
  \<^verbatim>\<open>dbJobToJob\<close> (lines 587-599) sets \<^verbatim>\<open>id\<close>, \<^verbatim>\<open>body\<close>, \<^verbatim>\<open>endpoint\<close> and \<^verbatim>\<open>repeat.cron\<close>; the
  other optional properties of a \<^verbatim>\<open>JobDTO\<close> stay undefined and are left out.
\<close>

record JobDTO =
  dto_id :: JobId
  dto_body :: string
  dto_endpoint :: string
  dto_cron :: string

definition dbJobToJob :: "job_row \<Rightarrow> error + JobDTO" where
  "dbJobToJob dbJob =
     (case endpoint_match (command dbJob) of
        None \<Rightarrow> Inl (Error ''Failed to parse job endpoint!'')
      | Some endpoint \<Rightarrow>
          Inr \<lparr>dto_id = IdNumber (jobid dbJob), dto_body = [], dto_endpoint = endpoint,
               dto_cron = schedule dbJob\<rparr>)"

subsection \<open>\<open>decryptAndDecodeBody\<close> and \<open>toJob\<close>\<close>

text \<open>
  \<^verbatim>\<open>decryptAndDecodeBody\<close> (lines 524-544). With the callback installed, a failed
  decryption hands the error to the callback and returns \<^verbatim>\<open>body\<close>, which still holds
  the string that was passed in.
\<close>

definition decryptAndDecodeBody :: "client \<Rightarrow> externals \<Rightarrow> js \<Rightarrow> world \<Rightarrow> (error + js) \<times> world" where
  "decryptAndDecodeBody c ext body w =
     (if body = JNull \<or> body = JUndefined \<or> body = JStr [] then (Inr (JObj []), w)
      else if typeof body = ''object'' then (Inr body, w)
      else
        (case body of
           JStr s \<Rightarrow>
             (case encryptor c of
                Some e \<Rightarrow>
                  (if catchDecryptionErrors c then
                     (case Encryptor_decrypt ext e s of
                        Inl err \<Rightarrow> (Inr (JStr s), w\<lparr>caught := caught w @ [err]\<rparr>)
                      | Inr plaintext \<Rightarrow> (EnhancedJSON_parse ext plaintext, w))
                   else
                     (case Encryptor_decrypt ext e s of
                        Inl err \<Rightarrow> (Inl err, w)
                      | Inr plaintext \<Rightarrow> (EnhancedJSON_parse ext plaintext, w)))
              | None \<Rightarrow> (EnhancedJSON_parse ext s, w))
         | _ \<Rightarrow> (Inl (Error (''Invalid encoded body type: '' @ typeof body)), w)))"

text \<open>
  A \<^verbatim>\<open>Job\<close> as \<^verbatim>\<open>toJob\<close> (lines 546-554) builds it from a \<^verbatim>\<open>JobDTO\<close>; its two methods
  \<^verbatim>\<open>delete\<close> and \<^verbatim>\<open>invoke\<close> are the client's, applied to the id.
\<close>

record Job =
  j_id :: JobId
  j_body :: js
  j_endpoint :: string
  j_cron :: string

definition toJob :: "client \<Rightarrow> externals \<Rightarrow> JobDTO \<Rightarrow> world \<Rightarrow> (error + Job) \<times> world" where
  "toJob c ext dto w =
     (case decryptAndDecodeBody c ext (JStr (dto_body dto)) w of
        (Inl e, w') \<Rightarrow> (Inl e, w')
      | (Inr body, w') \<Rightarrow>
          (Inr \<lparr>j_id = dto_id dto, j_body = body, j_endpoint = dto_endpoint dto,
                j_cron = dto_cron dto\<rparr>, w'))"

subsection \<open>Queries\<close>

text \<open>The derived name of the route's recurring job, \<^verbatim>\<open>`cron-job:${this.route}`.substring(0, 64)\<close>.\<close>

definition jobName :: "client \<Rightarrow> string" where
  "jobName c = take 64 (''cron-job:'' @ route c)"

text \<open>
  \<^verbatim>\<open>getById\<close> (lines 605-615) for a numeric id, where \<^verbatim>\<open>Number(id)\<close> is the id itself.
\<close>

definition getById :: "client \<Rightarrow> externals \<Rightarrow> int \<Rightarrow> world \<Rightarrow> (error + Job option) \<times> world" where
  "getById c ext i w =
     (case prisma c of
        Inl e \<Rightarrow> (Inl e, w)
      | Inr _ \<Rightarrow>
          (case find (\<lambda>j. jobid j = i) (job_table w) of
             None \<Rightarrow> (Inr None, w)
           | Some dbJob \<Rightarrow>
               (case dbJobToJob dbJob of
                  Inl e \<Rightarrow> (Inl e, w)
                | Inr dto \<Rightarrow>
                    (case toJob c ext dto w of
                       (Inl e, w') \<Rightarrow> (Inl e, w')
                     | (Inr job, w') \<Rightarrow> (Inr (Some job), w')))))"

text \<open>The jobs of a list of rows, in order; the first failure ends the conversion.\<close>

fun toJobs :: "client \<Rightarrow> externals \<Rightarrow> job_row list \<Rightarrow> world \<Rightarrow> (error + Job list) \<times> world" where
  "toJobs c ext [] w = (Inr [], w)"
| "toJobs c ext (dbJob # dbJobs) w =
     (case dbJobToJob dbJob of
        Inl e \<Rightarrow> (Inl e, w)
      | Inr dto \<Rightarrow>
          (case toJob c ext dto w of
             (Inl e, w') \<Rightarrow> (Inl e, w')
           | (Inr job, w') \<Rightarrow>
               (case toJobs c ext dbJobs w' of
                  (Inl e, w'') \<Rightarrow> (Inl e, w'')
                | (Inr jobs, w'') \<Rightarrow> (Inr (job # jobs), w''))))"

text \<open>
  \<^verbatim>\<open>get\<close> (lines 563-585) yields one batch: the jobs stored under the route's name.
\<close>

definition get :: "client \<Rightarrow> externals \<Rightarrow> world \<Rightarrow> (error + Job list) \<times> world" where
  "get c ext w =
     (case prisma c of
        Inl e \<Rightarrow> (Inl e, w)
      | Inr _ \<Rightarrow>
          toJobs c ext
            (filter (\<lambda>j. jobname j = jobName c) (job_table w)) w)"

subsection \<open>Deleting\<close>

text \<open>\<^verbatim>\<open>deleteExisting\<close> (lines 679-690).\<close>

definition deleteExisting :: "client \<Rightarrow> string \<Rightarrow> world \<Rightarrow> (error + nat) \<times> world" where
  "deleteExisting c name w =
     (case prisma c of
        Inl e \<Rightarrow> (Inl e, w)
      | Inr _ \<Rightarrow>
          (case deleteMany (\<lambda>j. jobname j = name) w of
             (count, w') \<Rightarrow>
               (Inr count,
                if count > 0 then
                  w'\<lparr>console := console w' @
                       [Log (''Deleted '' @ decimal count @ '' existing job(s) for '' @ name)]\<rparr>
                else w')))"

text \<open>\<^verbatim>\<open>delete\<close> (lines 644-661).\<close>

definition delete :: "client \<Rightarrow> JobId \<Rightarrow> world \<Rightarrow> (error + bool) \<times> world" where
  "delete c ident w =
     (if ident = IdString ''@cron'' then
        (case deleteExisting c (jobName c) w of
           (Inl e, w') \<Rightarrow> (Inl e, w')
         | (Inr count, w') \<Rightarrow> (Inr (count > 0), w'))
      else
        (case ident of
           IdNumber n \<Rightarrow>
             (case prisma c of
                Inl e \<Rightarrow> (Inl e, w)
              | Inr _ \<Rightarrow>
                  (case deleteMany (\<lambda>j. jobid j = n) w of
                     (count, w') \<Rightarrow> (Inr (count > 0), w')))
         | IdString s \<Rightarrow> (Inl (Error (''Invalid job id for delete: '' @ s)), w)))"

text \<open>
  \<^verbatim>\<open>deleteAll\<close> (lines 692-696). The body has no \<^verbatim>\<open>return\<close>: the promise resolves to
  \<^verbatim>\<open>undefined\<close>.
\<close>

definition deleteAll :: "client \<Rightarrow> world \<Rightarrow> (error + js) \<times> world" where
  "deleteAll c w =
     (case prisma c of
        Inl e \<Rightarrow> (Inl e, w)
      | Inr _ \<Rightarrow>
          (case deleteMany (\<lambda>j. True) w of
             (count, w') \<Rightarrow>
               (Inr JUndefined,
                if count > 0 then
                  w'\<lparr>console := console w' @
                       [Log (''Deleted '' @ decimal count @ '' job(s) during cleanup'')]\<rparr>
                else w')))"

subsection \<open>\<open>enqueue\<close>\<close>

text \<open>
  \<^verbatim>\<open>body.repeat?.cron\<close> when it is truthy: a cron string that is present and not empty.
\<close>

definition cronSchedule :: "request_body \<Rightarrow> string option" where
  "cronSchedule body =
     (case b_repeat body of
        None \<Rightarrow> None
      | Some r \<Rightarrow>
          (case cron r of
             None \<Rightarrow> None
           | Some s \<Rightarrow> (if s = [] then None else Some s)))"

text \<open>The third argument of \<^verbatim>\<open>cron.schedule\<close> in \<^verbatim>\<open>enqueue\<close> (lines 442-446).\<close>

definition enqueue_command :: "client \<Rightarrow> string" where
  "enqueue_command c =
     nl @ spaces 10 @ ''select status'' @ nl @
     spaces 10 @ ''from'' @ nl @
     spaces 12 @
       httpRequestSQL (applicationBaseUrl c @ ''/'' @ route c) ''POST'' ''{}''
         [(''x-quirrel-secret'', ''TODO-secret'')] @ nl @
     spaces 10"

text \<open>
  \<^verbatim>\<open>enqueue\<close> (lines 420-491). \<open>now_parse\<close> and \<open>now_delay\<close> are the two readings of the
  clock in \<^verbatim>\<open>payloadAndOptionsToBody\<close>.
\<close>

definition enqueue ::
  "client \<Rightarrow> externals \<Rightarrow> int \<Rightarrow> int \<Rightarrow> js \<Rightarrow> EnqueueJobOptions \<Rightarrow> world \<Rightarrow> (error + Job) \<times> world" where
  "enqueue c ext now_parse now_delay payload options w =
     (case payloadAndOptionsToBody c ext now_parse now_delay payload options of
        Inl e \<Rightarrow> (Inl e, w)
      | Inr body \<Rightarrow>
          (case cronSchedule body of
             Some sched \<Rightarrow>
               (case deleteExisting c (jobName c) w of
                  (Inl e, w1) \<Rightarrow> (Inl e, w1)
                | (Inr _, w1) \<Rightarrow>
                    (case cron_schedule (jobName c) sched (enqueue_command c) w1 of
                       (jobId, w2) \<Rightarrow>
                         (case getById c ext jobId w2 of
                            (Inl e, w3) \<Rightarrow> (Inl e, w3)
                          | (Inr None, w3) \<Rightarrow>
                              (Inl (Error (''Job '' @ decimal_int jobId @ '' not found'')), w3)
                          | (Inr (Some job), w3) \<Rightarrow>
                              (Inr job,
                               w3\<lparr>console := console w3 @
                                    [Log (''enqueued job '' @
                                          (case j_id job of
                                             IdNumber n \<Rightarrow> decimal_int n
                                           | IdString s \<Rightarrow> s) @
                                          '': '' @ dq @ j_cron job @ dq @ '' at '' @ dq @
                                          j_endpoint job @ dq)]\<rparr>))))
           | None \<Rightarrow> (Inl (Error (''UNIMPLEMENTED: '' @ sq @ ''schedule'' @ sq @ '' is required'')), w)))"

subsection \<open>\<open>respondTo\<close>\<close>

text \<open>
  A header of \<^verbatim>\<open>IncomingHttpHeaders\<close> is a string or an array of strings. As a string
  (\<^verbatim>\<open>JSON.parse\<close> converts its argument) an array is its elements joined by commas.
\<close>

datatype header = Single string | Multiple "string list"

fun header_string :: "header \<Rightarrow> string" where
  "header_string (Single s) = s"
| "header_string (Multiple ss) = join '','' ss"

record response =
  status :: nat
  headers :: "(string \<times> string) list"
  body :: string

text \<open>Reading a property of a parsed value; it is \<^verbatim>\<open>undefined\<close> where there is none.\<close>

definition property :: "js \<Rightarrow> string \<Rightarrow> js" where
  "property v k =
     (case v of
        JObj kvs \<Rightarrow> (case map_of kvs k of Some x \<Rightarrow> x | None \<Rightarrow> JUndefined)
      | _ \<Rightarrow> JUndefined)"

text \<open>
  The destructuring \<^verbatim>\<open>const { id, count, retry, nextRepetition, exclusive } = ...\<close>, which
  throws a \<^verbatim>\<open>TypeError\<close> on \<^verbatim>\<open>null\<close>.
\<close>

definition destructure_meta :: "js \<Rightarrow> error + JobMeta" where
  "destructure_meta v =
     (if v = JNull \<or> v = JUndefined then Inl (TypeError ''Cannot destructure'')
      else Inr \<lparr>meta_id = property v ''id'', meta_count = property v ''count'', meta_retry = property v ''retry'',
                meta_nextRepetition = property v ''nextRepetition'',
                meta_exclusive = property v ''exclusive''\<rparr>)"

text \<open>
  The check of lines 706-724: the response that ends the delivery early, if any.
\<close>

definition signature_check ::
  "client \<Rightarrow> externals \<Rightarrow> string \<Rightarrow> (string \<Rightarrow> header option) \<Rightarrow> response option" where
  "signature_check c ext body_in hs =
     (if NODE_ENV ext = Some ''production'' then
        (case hs ''x-quirrel-signature'' of
           Some (Single signature) \<Rightarrow>
             (if verify ext body_in (token c) signature then None
              else Some \<lparr>status = 401, headers = [], body = ''Signature invalid''\<rparr>)
         | _ \<Rightarrow> Some \<lparr>status = 401, headers = [], body = ''Signature missing''\<rparr>)
      else None)"

text \<open>
  \<^verbatim>\<open>respondTo\<close> (lines 698-756). A call of the handler is appended to \<open>handled\<close> before
  its outcome is looked at.
\<close>

definition respondTo ::
  "client \<Rightarrow> externals \<Rightarrow> string \<Rightarrow> (string \<Rightarrow> header option) \<Rightarrow> world \<Rightarrow> (error + response) \<times> world" where
  "respondTo c ext body_in hs w =
     (case signature_check c ext body_in hs of
        Some r \<Rightarrow> (Inr r, w)
      | None \<Rightarrow>
          (case decryptAndDecodeBody c ext (JStr body_in) w of
             (Inl e, w1) \<Rightarrow> (Inl e, w1)
           | (Inr payload, w1) \<Rightarrow>
               (case JSON_parse ext
                       (case hs ''x-quirrel-meta'' of
                          Some h \<Rightarrow> header_string h
                        | None \<Rightarrow> ''{}'') of
                  Inl e \<Rightarrow> (Inl e, w1)
                | Inr parsed \<Rightarrow>
                    (case destructure_meta parsed of
                       Inl e \<Rightarrow> (Inl e, w1)
                     | Inr meta \<Rightarrow>
                         (let w2 = w1\<lparr>console := console w1 @
                                       [LogValue (''Received job to '' @ route c @ '': '') payload]\<rparr>;
                              w3 = w2\<lparr>handled := handled w2 @ [(payload, meta)]\<rparr>
                          in (case handler c payload meta of
                                Inr _ \<Rightarrow>
                                  (Inr \<lparr>status = 200, headers = [], body = ''OK''\<rparr>, w3)
                              | Inl error \<Rightarrow>
                                  (Inr \<lparr>status = 500, headers = [], body = String ext error\<rparr>,
                                   w3\<lparr>console := console w3 @ [LogError error]\<rparr>)))))))"

section \<open>The duration resolver as the normalizer uses it\<close>

text \<open>
  A duration option passes the schema \<^verbatim>\<open>timeDuration(fieldName).optional()\<close> inside
  \<^verbatim>\<open>parse\<close> (line 387) and is then handed to \<^verbatim>\<open>parseDuration\<close> (lines 389, 396, 411).
\<close>

definition resolveDuration :: "(string \<Rightarrow> real option) \<Rightarrow> string \<Rightarrow> duration option \<Rightarrow> error + real option" where
  "resolveDuration m fieldName v =
     (case optional (timeDuration fieldName [Key fieldName]) v of
        [] \<Rightarrow> Inr (parseDuration m v)
      | issues \<Rightarrow> Inl (ZodError issues))"

section \<open>A concrete client, for the examples\<close>

definition demo_ms :: "string \<Rightarrow> real option" where
  "demo_ms s = (if s = ''5min'' then Some 300000 else if s = ''1h'' then Some 3600000 else None)"

definition demo_parse :: "string \<Rightarrow> error + js" where
  "demo_parse s = (if s = ''{}'' then Inr (JObj []) else Inl (Error ''Unexpected token''))"

definition demo_String :: "error \<Rightarrow> string" where
  "demo_String e =
     (case e of
        Error m \<Rightarrow> ''Error: '' @ m
      | TypeError m \<Rightarrow> ''TypeError: '' @ m
      | ZodError issues \<Rightarrow> ''ZodError'')"

text \<open>
  A toy cipher: the ciphertext is the secret, a colon and the plaintext; decryption tries
  the secrets in order and throws when none fits.
\<close>

fun demo_try :: "string list \<Rightarrow> string \<Rightarrow> string option" where
  "demo_try [] ciphertext = None"
| "demo_try (k # ks) ciphertext =
     (if take (length k + 1) ciphertext = k @ '':'' then Some (drop (length k + 1) ciphertext)
      else demo_try ks ciphertext)"

definition demo_decrypt :: "Encryptor \<Rightarrow> string \<Rightarrow> error + string" where
  "demo_decrypt e ciphertext =
     (case demo_try (decryptionKeys e) ciphertext of
        Some plaintext \<Rightarrow> Inr plaintext
      | None \<Rightarrow> Inl (Error ''Could not decrypt''))"

definition demo_externals :: externals where
  "demo_externals =
     \<lparr>ms = demo_ms,
      EnhancedJSON_stringify = (\<lambda>v. ''{}''),
      EnhancedJSON_parse = demo_parse,
      Encryptor_encrypt = (\<lambda>e plaintext. encryptionKey e @ '':'' @ plaintext),
      Encryptor_decrypt = demo_decrypt,
      verify = (\<lambda>b t s. s = ''signed:'' @ b),
      JSON_parse = demo_parse,
      String = demo_String,
      NODE_ENV = Some ''production''\<rparr>"

definition demo_handler :: "js \<Rightarrow> JobMeta \<Rightarrow> error + unit" where
  "demo_handler payload meta = (if payload = JObj [] then Inr () else Inl (Error ''boom''))"

definition demo_client :: "string \<Rightarrow> client" where
  "demo_client r =
     \<lparr>handler = demo_handler,
      route = r,
      defaultJobOptions = None,
      encryptor = getEncryptor (Some ''01234567890123456789012345678901'') [],
      applicationBaseUrl = ''http://localhost:3000'',
      databaseUrl = Some ''postgres://localhost:5432/postgres'',
      token = Some ''token'',
      catchDecryptionErrors = False\<rparr>"

definition empty_world :: world where
  "empty_world = \<lparr>job_table = [], next_jobid = 1, console = [], caught = [], handled = []\<rparr>"

definition no_options :: EnqueueJobOptions where
  "no_options =
     \<lparr>job_id = None, exclusive = None, override = None, retry = None, delay = None,
      runAt = None, repeat = None\<rparr>"

definition cron_options :: "string \<Rightarrow> EnqueueJobOptions" where
  "cron_options s = no_options\<lparr>repeat := Some \<lparr>every = None, times_opt = None, cron = Some s\<rparr>\<rparr>"

definition no_headers :: "string \<Rightarrow> header option" where
  "no_headers name = None"

definition signed_headers :: "string \<Rightarrow> string \<Rightarrow> header option" where
  "signed_headers signature name =
     (if name = ''x-quirrel-signature'' then Some (Single signature) else None)"

definition two_rows :: world where
  "two_rows =
     empty_world\<lparr>job_table :=
       [\<lparr>jobid = 1, schedule = ''* * * * *'', command = [], jobname = ''cron-job:/jobs'', active = True\<rparr>,
        \<lparr>jobid = 2, schedule = ''0 * * * *'', command = [], jobname = ''cron-job:/other'', active = True\<rparr>],
       next_jobid := 3\<rparr>"

definition conflicting_options :: EnqueueJobOptions where
  "conflicting_options = (cron_options ''* * * * *'')\<lparr>retry := Some [Str ''5min'']\<rparr>"

definition runAt_options :: EnqueueJobOptions where
  "runAt_options = (cron_options ''* * * * *'')\<lparr>delay := Some (Str ''5min''), runAt := Some 5000\<rparr>"


definition failing_client :: client where
  "failing_client = (demo_client ''/jobs'')\<lparr>handler := (\<lambda>payload meta. Inl (Error ''boom''))\<rparr>"

text \<open>Three jobs registered on three routes, starting from an empty table.\<close>

definition three_jobs :: world where
  "three_jobs =
     snd (enqueue (demo_client ''/c'') demo_externals 0 0 (JObj []) (cron_options ''0 0 * * *'')
       (snd (enqueue (demo_client ''/b'') demo_externals 0 0 (JObj []) (cron_options ''0 * * * *'')
         (snd (enqueue (demo_client ''/a'') demo_externals 0 0 (JObj []) (cron_options ''* * * * *'')
            empty_world)))))"

text \<open>A route of 68 characters, longer than the 55 that fit behind \<^verbatim>\<open>cron-job:\<close>.\<close>

definition long_route :: string where
  "long_route = ''/reports/quarterly/customers/europe/invoices/reminders/second-notice''"

section \<open>Facts about the regular expressions\<close>

lemmas regex_defs =
  vercelMs_regex_def ms_units_def alts_def word_i_def chr_i_def chr_def digit_def Opt_def
  Plus_def isDigit_def toLowerCase_def

lemmas cron_defs =
  isValidRegex_def cron_field_def cron_gap_def cron_item_def cron_number_def chr_def digit_def
  Opt_def Plus_def isDigit_def

lemma vercelMs_regex_nonempty: "matches vercelMs_regex s \<Longrightarrow> s \<noteq> []"
  by (auto simp: regex_defs)

lemma isValidRegex_nonempty: "isValidRegex s \<Longrightarrow> s \<noteq> []"
  by (auto simp: cron_defs)

section \<open>Facts about normalization\<close>

lemma parse_cases:
  "EnqueueJobOptionsSchema_parse now options =
     (if EnqueueJobOptionsSchema now options = [] then Inr options
      else Inl (ZodError (EnqueueJobOptionsSchema now options)))"
  by (simp add: EnqueueJobOptionsSchema_parse_def split: list.splits)

text \<open>The four outcomes of \<^verbatim>\<open>payloadAndOptionsToBody\<close>, in the order of its checks.\<close>

lemma normalize_cases:
  "payloadAndOptionsToBody c ext now_parse now_delay payload options =
     (if payload = JUndefined then
        Inl (Error (''Passing '' @ [CHR 0x60] @ ''undefined'' @ [CHR 0x60] @ '' as Payload is not allowed''))
      else if repeat options \<noteq> None \<and> (case retry options of None \<Rightarrow> False | Some rs \<Rightarrow> length rs \<noteq> 0) then
        Inl (Error ''retry and repeat cannot be used together'')
      else if EnqueueJobOptionsSchema now_parse options \<noteq> [] then
        Inl (ZodError (EnqueueJobOptionsSchema now_parse options))
      else
        Inr \<lparr>b_exclusive = (case defaultJobOptions c of Some d \<Rightarrow> default_exclusive d | None \<Rightarrow> None),
             b_body = (case encryptor c of
                         Some e \<Rightarrow> Encryptor_encrypt ext e (EnhancedJSON_stringify ext payload)
                       | None \<Rightarrow> EnhancedJSON_stringify ext payload),
             b_delay = (case runAt options of
                          Some date \<Rightarrow> Some (runAtToDelay now_delay date)
                        | None \<Rightarrow> parseDuration (ms ext) (delay options)),
             b_id = job_id options,
             b_repeat = (case repeat options of
                           Some r \<Rightarrow> Some (r\<lparr>every := map_option Num (parseDuration (ms ext) (every r))\<rparr>)
                         | None \<Rightarrow> None),
             b_retry = map_option (map (\<lambda>r. parseDuration (ms ext) (Some r))) (retry options),
             b_override = override options\<rparr>)"
  by (simp add: payloadAndOptionsToBody_def parse_cases Let_def)

text \<open>A rejected normalization ends \<^verbatim>\<open>enqueue\<close> before any call to the registry.\<close>

lemma enqueue_rejected:
  "payloadAndOptionsToBody c ext now_parse now_delay payload options = Inl e \<Longrightarrow>
   enqueue c ext now_parse now_delay payload options w = (Inl e, w)"
  by (simp add: enqueue_def)

lemma body_cronSchedule:
  assumes "payloadAndOptionsToBody c ext now_parse now_delay payload options = Inr b"
    and "repeat options = Some r" and "cron r = Some s" and "s \<noteq> []"
  shows "cronSchedule b = Some s"
  using assms by (auto simp: normalize_cases cronSchedule_def split: if_splits)

text \<open>
  The \<^verbatim>\<open>delay\<close> option alone goes through \<open>resolveDuration\<close>: the normalizer's delay is the
  resolver's result.
\<close>

lemma resolveDuration_delay:
  assumes "payload \<noteq> JUndefined"
  shows "map_sum id b_delay
           (payloadAndOptionsToBody c ext now_parse now_delay payload (no_options\<lparr>delay := v\<rparr>)) =
         resolveDuration (ms ext) ''delay'' v"
proof -
  have s: "EnqueueJobOptionsSchema now_parse (no_options\<lparr>delay := v\<rparr>) =
             optional (timeDuration ''delay'' [Key ''delay'']) v"
    by (simp add: EnqueueJobOptionsSchema_def optional_def no_options_def)
  have o: "repeat (no_options\<lparr>delay := v\<rparr>) = None" "runAt (no_options\<lparr>delay := v\<rparr>) = None"
      "delay (no_options\<lparr>delay := v\<rparr>) = v"
    by (simp_all add: no_options_def)
  show ?thesis
    using assms by (simp add: normalize_cases s o resolveDuration_def split: list.splits)
qed

lemma demo_schema_cron:
  "isValidRegex s \<Longrightarrow> EnqueueJobOptionsSchema now (cron_options s) = []"
  by (simp add: EnqueueJobOptionsSchema_def optional_def repeat_schema_def cron_schema_def
      cron_options_def no_options_def)

lemma demo_normalize:
  assumes "isValidRegex s"
  shows "payloadAndOptionsToBody (demo_client r) demo_externals n n' (JObj []) (cron_options s) =
           Inr \<lparr>b_exclusive = None,
                b_body = ''01234567890123456789012345678901:{}'',
                b_delay = None, b_id = None,
                b_repeat = Some \<lparr>every = None, times_opt = None, cron = Some s\<rparr>,
                b_retry = None, b_override = None\<rparr>"
proof -
  have o: "retry (cron_options s) = None" "runAt (cron_options s) = None"
      "delay (cron_options s) = None" "job_id (cron_options s) = None"
      "override (cron_options s) = None"
      "repeat (cron_options s) = Some \<lparr>every = None, times_opt = None, cron = Some s\<rparr>"
    by (simp_all add: cron_options_def no_options_def)
  show ?thesis
    by (simp add: normalize_cases demo_schema_cron [OF assms] o parseDuration_def demo_client_def
        getEncryptor_def demo_externals_def)
qed

lemma demo_prisma: "prisma (demo_client r) = Inr ()"
  by (simp add: prisma_def demo_client_def)

section \<open>Facts about the registry\<close>

lemma decryptAndDecodeBody_table:
  "job_table (snd (decryptAndDecodeBody c ext b w)) = job_table w"
  by (simp add: decryptAndDecodeBody_def split: js.splits option.splits sum.splits)

lemma toJob_table: "job_table (snd (toJob c ext dto w)) = job_table w"
proof (cases "decryptAndDecodeBody c ext (JStr (dto_body dto)) w")
  case (Pair r w')
  with decryptAndDecodeBody_table [of c ext "JStr (dto_body dto)" w]
  show ?thesis by (cases r) (simp_all add: toJob_def)
qed

lemma getById_table: "job_table (snd (getById c ext i w)) = job_table w"
proof (cases "prisma c")
  case (Inl e)
  then show ?thesis by (simp add: getById_def)
next
  case (Inr u)
  show ?thesis
  proof (cases "find (\<lambda>j. jobid j = i) (job_table w)")
    case None
    with Inr show ?thesis by (simp add: getById_def)
  next
    case (Some dbJob)
    show ?thesis
    proof (cases "dbJobToJob dbJob")
      case (Inl e)
      with Inr Some show ?thesis by (simp add: getById_def)
    next
      case dto: (Inr dto)
      obtain r w' where t: "toJob c ext dto w = (r, w')" by (cases "toJob c ext dto w")
      with toJob_table [of c ext dto w] have "job_table w' = job_table w" by simp
      with Inr Some dto t show ?thesis by (cases r) (simp_all add: getById_def)
    qed
  qed
qed

text \<open>
  One cron enqueue: the rows under the derived name are deleted, then the new row is
  appended, whatever the lookup that follows returns.
\<close>

lemma enqueue_table:
  assumes "prisma c = Inr ()"
    and "payloadAndOptionsToBody c ext now_parse now_delay payload options = Inr b"
    and "cronSchedule b = Some s"
  shows "job_table (snd (enqueue c ext now_parse now_delay payload options w)) =
           filter (\<lambda>j. jobname j \<noteq> jobName c) (job_table w) @
           [\<lparr>jobid = next_jobid w, schedule = s, command = enqueue_command c,
             jobname = jobName c, active = True\<rparr>]"
proof -
  obtain n w1 where d: "deleteExisting c (jobName c) w = (Inr n, w1)"
    and t1: "job_table w1 = filter (\<lambda>j. jobname j \<noteq> jobName c) (job_table w)"
    and i1: "next_jobid w1 = next_jobid w"
    using assms(1) by (simp add: deleteExisting_def deleteMany_def)
  define w2 where "w2 = snd (cron_schedule (jobName c) s (enqueue_command c) w1)"
  have cs: "cron_schedule (jobName c) s (enqueue_command c) w1 = (next_jobid w, w2)"
    by (simp add: w2_def cron_schedule_def i1)
  have t2: "job_table w2 = filter (\<lambda>j. jobname j \<noteq> jobName c) (job_table w) @
           [\<lparr>jobid = next_jobid w, schedule = s, command = enqueue_command c,
             jobname = jobName c, active = True\<rparr>]"
    by (simp add: w2_def cron_schedule_def t1 i1)
  obtain r w3 where g: "getById c ext (next_jobid w) w2 = (r, w3)"
    by (cases "getById c ext (next_jobid w) w2")
  with getById_table [of c ext "next_jobid w" w2] have t3: "job_table w3 = job_table w2" by simp
  have "job_table (snd (enqueue c ext now_parse now_delay payload options w)) = job_table w3"
    using assms(2,3) d cs g
    by (simp add: enqueue_def split: sum.splits option.splits)
  with t3 t2 show ?thesis by simp
qed

lemma demo_enqueue_table:
  assumes "isValidRegex s" and "length r \<le> 55"
  shows "job_table (snd (enqueue (demo_client r) demo_externals n n' (JObj []) (cron_options s) w)) =
           filter (\<lambda>j. jobname j \<noteq> ''cron-job:'' @ r) (job_table w) @
           [\<lparr>jobid = next_jobid w, schedule = s, command = enqueue_command (demo_client r),
             jobname = ''cron-job:'' @ r, active = True\<rparr>]"
proof -
  have name: "jobName (demo_client r) = ''cron-job:'' @ r"
    using assms(2) by (simp add: jobName_def demo_client_def)
  from assms(1) have "s \<noteq> []" by (rule isValidRegex_nonempty)
  then have cs: "cronSchedule \<lparr>b_exclusive = None,
                b_body = ''01234567890123456789012345678901:{}'',
                b_delay = None, b_id = None,
                b_repeat = Some \<lparr>every = None, times_opt = None, cron = Some s\<rparr>,
                b_retry = None, b_override = None\<rparr> = Some s"
    by (simp add: cronSchedule_def)
  from enqueue_table [OF demo_prisma demo_normalize [OF assms(1)] cs] name show ?thesis by simp
qed

lemma three_jobs_names:
  "map jobname (job_table three_jobs) = [''cron-job:/a'', ''cron-job:/b'', ''cron-job:/c'']"
proof -
  have v: "isValidRegex ''* * * * *''" "isValidRegex ''0 * * * *''" "isValidRegex ''0 0 * * *''"
    by (simp_all add: cron_defs)
  show ?thesis
    by (simp add: three_jobs_def demo_enqueue_table v empty_world_def)
qed

lemma three_jobs_length: "length (job_table three_jobs) = 3"
proof -
  from three_jobs_names have "length (map jobname (job_table three_jobs)) = 3" by simp
  then show ?thesis by simp
qed

lemma deleteAll_world:
  assumes "prisma c = Inr ()"
  shows "deleteAll c w =
           (Inr JUndefined,
            w\<lparr>job_table := [],
              console := console w @
                (if 0 < length (job_table w)
                 then [Log (''Deleted '' @ decimal (length (job_table w)) @ '' job(s) during cleanup'')]
                 else [])\<rparr>)"
  using assms by (simp add: deleteAll_def deleteMany_def)

section \<open>Facts about decryption and delivery\<close>

lemma signature_check_world:
  "signature_check c ext b hs = Some r \<Longrightarrow> respondTo c ext b hs w = (Inr r, w)"
  by (simp add: respondTo_def)

lemma respondTo_delivered:
  assumes "signature_check c ext b hs = None"
    and "decryptAndDecodeBody c ext (JStr b) w = (Inr payload, w1)"
    and "JSON_parse ext (case hs ''x-quirrel-meta'' of Some h \<Rightarrow> header_string h | None \<Rightarrow> ''{}'') =
           Inr parsed"
    and "destructure_meta parsed = Inr meta"
  shows "handled (snd (respondTo c ext b hs w)) = handled w1 @ [(payload, meta)]"
    and "handler c payload meta = Inr u \<Longrightarrow>
           fst (respondTo c ext b hs w) = Inr \<lparr>status = 200, headers = [], body = ''OK''\<rparr>"
    and "handler c payload meta = Inl e \<Longrightarrow>
           fst (respondTo c ext b hs w) = Inr \<lparr>status = 500, headers = [], body = String ext e\<rparr>"
proof -
  show "handled (snd (respondTo c ext b hs w)) = handled w1 @ [(payload, meta)]"
    using assms by (cases "handler c payload meta") (simp_all add: respondTo_def Let_def)
  show "handler c payload meta = Inr u \<Longrightarrow>
           fst (respondTo c ext b hs w) = Inr \<lparr>status = 200, headers = [], body = ''OK''\<rparr>"
    using assms by (simp add: respondTo_def Let_def)
  show "handler c payload meta = Inl e \<Longrightarrow>
           fst (respondTo c ext b hs w) = Inr \<lparr>status = 500, headers = [], body = String ext e\<rparr>"
    using assms by (simp add: respondTo_def Let_def)
qed

section \<open>C1: a cron enqueue replaces the entry of its route\<close>

text \<open>
  C1. For every route, with a database URL configured, an enqueue that passes
  normalization with a non-empty \<^verbatim>\<open>repeat.cron\<close> first deletes the entries whose name is
  the first 64 characters of \<^verbatim>\<open>cron-job:\<close> followed by the route, and then creates the new
  entry under that name. After two such enqueues in succession on the same route the
  registry holds exactly one entry under that name; it is live and carries the schedule
  of the second enqueue.
\<close>

theorem enqueue_cron_replaces:
  assumes "prisma c = Inr ()"
    and "payloadAndOptionsToBody c ext now1 now1' payload1 options1 = Inr b1"
    and "repeat options1 = Some r1" and "cron r1 = Some s1" and "s1 \<noteq> []"
    and "payloadAndOptionsToBody c ext now2 now2' payload2 options2 = Inr b2"
    and "repeat options2 = Some r2" and "cron r2 = Some s2" and "s2 \<noteq> []"
  shows "job_table (snd (enqueue c ext now1 now1' payload1 options1 w)) =
           filter (\<lambda>j. jobname j \<noteq> take 64 (''cron-job:'' @ route c)) (job_table w) @
           [\<lparr>jobid = next_jobid w, schedule = s1, command = enqueue_command c,
             jobname = take 64 (''cron-job:'' @ route c), active = True\<rparr>] \<and>
         (\<exists>row. filter (\<lambda>j. jobname j = take 64 (''cron-job:'' @ route c))
                  (job_table (snd (enqueue c ext now2 now2' payload2 options2
                     (snd (enqueue c ext now1 now1' payload1 options1 w))))) = [row] \<and>
                jobname row = take 64 (''cron-job:'' @ route c) \<and>
                schedule row = s2 \<and> active row)"
proof -
  from assms have c1: "cronSchedule b1 = Some s1" and c2: "cronSchedule b2 = Some s2"
    by (auto intro: body_cronSchedule)
  define name where "name = take 64 (''cron-job:'' @ route c)"
  have n: "jobName c = name" by (simp add: jobName_def name_def)
  let ?w1 = "snd (enqueue c ext now1 now1' payload1 options1 w)"
  have first: "job_table ?w1 =
      filter (\<lambda>j. jobname j \<noteq> name) (job_table w) @
      [\<lparr>jobid = next_jobid w, schedule = s1, command = enqueue_command c,
        jobname = name, active = True\<rparr>]"
    using enqueue_table [OF assms(1) assms(2) c1, of w] by (simp only: n)
  have second: "job_table (snd (enqueue c ext now2 now2' payload2 options2 ?w1)) =
      filter (\<lambda>j. jobname j \<noteq> name) (job_table ?w1) @
      [\<lparr>jobid = next_jobid ?w1, schedule = s2, command = enqueue_command c,
        jobname = name, active = True\<rparr>]"
    using enqueue_table [OF assms(1) assms(6) c2, of ?w1] by (simp only: n)
  have "filter (\<lambda>j. jobname j = name)
          (job_table (snd (enqueue c ext now2 now2' payload2 options2 ?w1))) =
        [\<lparr>jobid = next_jobid ?w1, schedule = s2, command = enqueue_command c,
          jobname = name, active = True\<rparr>]"
    by (simp add: second)
  with first show ?thesis unfolding name_def [symmetric] by simp
qed

text \<open>
  Two routes. On \<^verbatim>\<open>/jobs\<close> (the scenario of the specification) the name is
  \<^verbatim>\<open>cron-job:/jobs\<close>. On a route of 68 characters the name is cut: it is the first 64 of
  the 77 characters of \<^verbatim>\<open>cron-job:\<close> and the route. In both cases \<^verbatim>\<open>* * * * *\<close> is followed
  by \<^verbatim>\<open>0 * * * *\<close>, starting from an empty table.
\<close>

theorem enqueue_cron_replaces_witness:
  "(\<exists>row. filter (\<lambda>j. jobname j = ''cron-job:/jobs'')
            (job_table (snd (enqueue (demo_client ''/jobs'') demo_externals 0 0 (JObj [])
               (cron_options ''0 * * * *'')
               (snd (enqueue (demo_client ''/jobs'') demo_externals 0 0 (JObj [])
                  (cron_options ''* * * * *'') empty_world))))) = [row] \<and>
          jobname row = ''cron-job:/jobs'' \<and>
          schedule row = ''0 * * * *'' \<and> active row) \<and>
   (\<exists>row. filter
            (\<lambda>j. jobname j = ''cron-job:/reports/quarterly/customers/europe/invoices/reminders/'')
            (job_table (snd (enqueue (demo_client long_route) demo_externals 0 0 (JObj [])
               (cron_options ''0 * * * *'')
               (snd (enqueue (demo_client long_route) demo_externals 0 0 (JObj [])
                  (cron_options ''* * * * *'') empty_world))))) = [row] \<and>
          jobname row = ''cron-job:/reports/quarterly/customers/europe/invoices/reminders/'' \<and>
          schedule row = ''0 * * * *'' \<and> active row) \<and>
   length ''cron-job:/reports/quarterly/customers/europe/invoices/reminders/'' = 64 \<and>
   length (''cron-job:'' @ long_route) = 77"
proof -
  let ?r = "\<lambda>s. \<lparr>every = None, times_opt = None, cron = Some s\<rparr>"
  let ?b = "\<lambda>s. \<lparr>b_exclusive = None, b_body = ''01234567890123456789012345678901:{}'',
                  b_delay = None, b_id = None, b_repeat = Some (?r s), b_retry = None,
                  b_override = None\<rparr>"
  have v1: "isValidRegex ''* * * * *''" by (simp add: cron_defs)
  have v2: "isValidRegex ''0 * * * *''" by (simp add: cron_defs)
  have n1: "\<And>r. payloadAndOptionsToBody (demo_client r) demo_externals 0 0 (JObj [])
                   (cron_options ''* * * * *'') = Inr (?b ''* * * * *'')"
    by (rule demo_normalize [OF v1])
  have n2: "\<And>r. payloadAndOptionsToBody (demo_client r) demo_externals 0 0 (JObj [])
                   (cron_options ''0 * * * *'') = Inr (?b ''0 * * * *'')"
    by (rule demo_normalize [OF v2])
  have r1: "repeat (cron_options ''* * * * *'') = Some (?r ''* * * * *'')"
    by (simp add: cron_options_def no_options_def)
  have r2: "repeat (cron_options ''0 * * * *'') = Some (?r ''0 * * * *'')"
    by (simp add: cron_options_def no_options_def)
  have c1: "cron (?r ''* * * * *'') = Some ''* * * * *''" by simp
  have c2: "cron (?r ''0 * * * *'') = Some ''0 * * * *''" by simp
  have e1: "''* * * * *'' \<noteq> []" by simp
  have e2: "''0 * * * *'' \<noteq> []" by simp
  have short: "take 64 (''cron-job:'' @ route (demo_client ''/jobs'')) = ''cron-job:/jobs''"
    by (simp add: demo_client_def)
  have long: "take 64 (''cron-job:'' @ route (demo_client long_route)) =
                ''cron-job:/reports/quarterly/customers/europe/invoices/reminders/''"
    by (simp add: demo_client_def long_route_def)
  have len: "length ''cron-job:/reports/quarterly/customers/europe/invoices/reminders/'' = 64 \<and>
             length (''cron-job:'' @ long_route) = 77"
    by (simp add: long_route_def)
  note a = enqueue_cron_replaces
    [OF demo_prisma n1 r1 c1 e1 n2 r2 c2 e2, of "''/jobs''" empty_world, unfolded short]
  note b = enqueue_cron_replaces
    [OF demo_prisma n1 r1 c1 e1 n2 r2 c2 e2, of long_route empty_world, unfolded long]
  from a b len show ?thesis by blast
qed

section \<open>C2: validation of the cron string\<close>

text \<open>
  C2. For every options value with \<^verbatim>\<open>repeat.cron\<close> present that reaches the cron rule, that
  is, with a payload that is not \<^verbatim>\<open>undefined\<close>, without a non-empty \<^verbatim>\<open>retry\<close> list and with
  the other options raising no validation issue (the rules that section 4.2 orders before
  it): normalization accepts the options if and only if the cron string is a well-formed
  five-field cron expression, and for every string that is not it fails with a validation
  error whose one issue is the invalid-cron issue.
\<close>

theorem cron_validation:
  assumes "payload \<noteq> JUndefined"
    and "repeat options = Some r"
    and "cron r = Some s"
    and "\<not> (\<exists>rs. retry options = Some rs \<and> rs \<noteq> [])"
    and "EnqueueJobOptionsSchema now_parse (options\<lparr>repeat := Some (r\<lparr>cron := None\<rparr>)\<rparr>) = []"
  shows "((\<exists>b. payloadAndOptionsToBody c ext now_parse now_delay payload options = Inr b) \<longleftrightarrow>
            isValidRegex s) \<and>
         (\<not> isValidRegex s \<longrightarrow>
            payloadAndOptionsToBody c ext now_parse now_delay payload options =
              Inl (ZodError [([Key ''repeat'', Key ''cron''], cron_message)]))"
proof -
  have nc: "\<not> (repeat options \<noteq> None \<and> (case retry options of None \<Rightarrow> False | Some rs \<Rightarrow> length rs \<noteq> 0))"
    using assms(4) by (auto split: option.splits)
  have "EnqueueJobOptionsSchema now_parse options =
          EnqueueJobOptionsSchema now_parse (options\<lparr>repeat := Some (r\<lparr>cron := None\<rparr>)\<rparr>) @
          cron_schema [Key ''repeat'', Key ''cron''] s"
    using assms(2,3)
    by (simp add: EnqueueJobOptionsSchema_def repeat_schema_def optional_def)
  with assms(5) have issues: "EnqueueJobOptionsSchema now_parse options =
      (if isValidRegex s then [] else [([Key ''repeat'', Key ''cron''], cron_message)])"
    by (simp add: cron_schema_def)
  have accepted: "isValidRegex s \<Longrightarrow>
      \<exists>b. payloadAndOptionsToBody c ext now_parse now_delay payload options = Inr b"
    using assms(1) nc issues by (simp add: normalize_cases)
  have rejected: "\<not> isValidRegex s \<Longrightarrow>
      payloadAndOptionsToBody c ext now_parse now_delay payload options =
        Inl (ZodError [([Key ''repeat'', Key ''cron''], cron_message)])"
    using assms(1) nc issues by (simp add: normalize_cases)
  from accepted rejected show ?thesis by (cases "isValidRegex s") auto
qed

theorem cron_validation_witness:
  "(\<exists>b. payloadAndOptionsToBody (demo_client ''/jobs'') demo_externals 0 0 (JObj [])
          (cron_options ''*/5 0-3 1,2 * *'') = Inr b) \<and>
   payloadAndOptionsToBody (demo_client ''/jobs'') demo_externals 0 0 (JObj [])
     (cron_options ''every minute'') =
     Inl (ZodError [([Key ''repeat'', Key ''cron''], cron_message)])"
proof -
  have p: "JObj [] \<noteq> JUndefined" by simp
  have r: "\<And>s. repeat (cron_options s) = Some \<lparr>every = None, times_opt = None, cron = Some s\<rparr>"
    by (simp add: cron_options_def no_options_def)
  have c: "\<And>s. cron \<lparr>every = None, times_opt = None, cron = Some s\<rparr> = Some s" by simp
  have t: "\<And>s. \<not> (\<exists>rs. retry (cron_options s) = Some rs \<and> rs \<noteq> [])"
    by (simp add: cron_options_def no_options_def)
  have v1: "isValidRegex ''*/5 0-3 1,2 * *''" by (simp add: cron_defs)
  have v2: "\<not> isValidRegex ''every minute''" by (simp add: cron_defs)
  have rest: "\<And>s. EnqueueJobOptionsSchema 0
                ((cron_options s)\<lparr>repeat := Some (\<lparr>every = None, times_opt = None, cron = Some s\<rparr>\<lparr>cron := None\<rparr>)\<rparr>) = []"
    by (simp add: EnqueueJobOptionsSchema_def optional_def repeat_schema_def cron_options_def
        no_options_def)
  from cron_validation [OF p r c t rest, where s = "''*/5 0-3 1,2 * *''" and c = "demo_client ''/jobs''"
      and ext = demo_externals and now_delay = 0] v1
  have a: "\<exists>b. payloadAndOptionsToBody (demo_client ''/jobs'') demo_externals 0 0 (JObj [])
          (cron_options ''*/5 0-3 1,2 * *'') = Inr b"
    by blast
  from cron_validation [OF p r c t rest, where s = "''every minute''" and c = "demo_client ''/jobs''"
      and ext = demo_externals and now_delay = 0] v2
  have b: "payloadAndOptionsToBody (demo_client ''/jobs'') demo_externals 0 0 (JObj [])
     (cron_options ''every minute'') =
     Inl (ZodError [([Key ''repeat'', Key ''cron''], cron_message)])"
    by blast
  from a b show ?thesis by blast
qed

section \<open>C3: responses to a delivery in production\<close>

text \<open>
  C3. In production mode, \<^verbatim>\<open>respondTo\<close> returns status 401 with body "Signature missing"
  when the header \<^verbatim>\<open>x-quirrel-signature\<close> is absent, and status 401 with body
  "Signature invalid" when it is present and fails verification; in both cases nothing
  else happens, so the handler is not called. Otherwise, once the body is decoded and the
  metadata parsed, the handler is called once: if it returns normally the response is
  status 200 with body "OK", and if it raises, status 500 with the stringified error.
\<close>

theorem respondTo_production:
  assumes "NODE_ENV ext = Some ''production''"
  shows "(hs ''x-quirrel-signature'' = None \<longrightarrow>
            respondTo c ext b hs w =
              (Inr \<lparr>status = 401, headers = [], body = ''Signature missing''\<rparr>, w)) \<and>
         (\<forall>s. hs ''x-quirrel-signature'' = Some (Single s) \<and> \<not> verify ext b (token c) s \<longrightarrow>
            respondTo c ext b hs w =
              (Inr \<lparr>status = 401, headers = [], body = ''Signature invalid''\<rparr>, w)) \<and>
         (\<forall>s payload w1 parsed meta.
            hs ''x-quirrel-signature'' = Some (Single s) \<and> verify ext b (token c) s \<and>
            decryptAndDecodeBody c ext (JStr b) w = (Inr payload, w1) \<and>
            JSON_parse ext (case hs ''x-quirrel-meta'' of Some h \<Rightarrow> header_string h | None \<Rightarrow> ''{}'') =
              Inr parsed \<and>
            destructure_meta parsed = Inr meta \<longrightarrow>
            handled (snd (respondTo c ext b hs w)) = handled w1 @ [(payload, meta)] \<and>
            (handler c payload meta = Inr () \<longrightarrow>
               fst (respondTo c ext b hs w) = Inr \<lparr>status = 200, headers = [], body = ''OK''\<rparr>) \<and>
            (\<forall>e. handler c payload meta = Inl e \<longrightarrow>
               fst (respondTo c ext b hs w) =
                 Inr \<lparr>status = 500, headers = [], body = String ext e\<rparr>))"
proof -
  have missing: "hs ''x-quirrel-signature'' = None \<Longrightarrow>
      respondTo c ext b hs w = (Inr \<lparr>status = 401, headers = [], body = ''Signature missing''\<rparr>, w)"
    using assms by (simp add: signature_check_world signature_check_def)
  have invalid: "\<And>s. hs ''x-quirrel-signature'' = Some (Single s) \<Longrightarrow> \<not> verify ext b (token c) s \<Longrightarrow>
      respondTo c ext b hs w = (Inr \<lparr>status = 401, headers = [], body = ''Signature invalid''\<rparr>, w)"
    using assms by (simp add: signature_check_world signature_check_def)
  have passed: "\<And>s. hs ''x-quirrel-signature'' = Some (Single s) \<Longrightarrow> verify ext b (token c) s \<Longrightarrow>
      signature_check c ext b hs = None"
    using assms by (simp add: signature_check_def)
  from missing invalid passed respondTo_delivered [of c ext b hs w] show ?thesis
    by blast
qed

text \<open>
  The four outcomes on the concrete client: no signature, the signature \<^verbatim>\<open>bogus\<close>, and a
  signed delivery of an encrypted \<^verbatim>\<open>{}\<close> to a handler that returns and to one that raises.
\<close>

theorem respondTo_production_witness:
  "respondTo (demo_client ''/jobs'') demo_externals ''x'' no_headers empty_world =
     (Inr \<lparr>status = 401, headers = [], body = ''Signature missing''\<rparr>, empty_world) \<and>
   respondTo (demo_client ''/jobs'') demo_externals ''x'' (signed_headers ''bogus'') empty_world =
     (Inr \<lparr>status = 401, headers = [], body = ''Signature invalid''\<rparr>, empty_world) \<and>
   fst (respondTo (demo_client ''/jobs'') demo_externals ''01234567890123456789012345678901:{}''
          (signed_headers ''signed:01234567890123456789012345678901:{}'') empty_world) =
     Inr \<lparr>status = 200, headers = [], body = ''OK''\<rparr> \<and>
   fst (respondTo failing_client demo_externals ''01234567890123456789012345678901:{}''
          (signed_headers ''signed:01234567890123456789012345678901:{}'') empty_world) =
     Inr \<lparr>status = 500, headers = [], body = ''Error: boom''\<rparr>"
proof -
  let ?c = "demo_client ''/jobs''"
  let ?b = "''01234567890123456789012345678901:{}''"
  let ?sig = "''signed:01234567890123456789012345678901:{}''"
  let ?m = "\<lparr>meta_id = JUndefined, meta_count = JUndefined, meta_retry = JUndefined,
             meta_nextRepetition = JUndefined, meta_exclusive = JUndefined\<rparr>"
  have env: "NODE_ENV demo_externals = Some ''production''"
    by (simp add: demo_externals_def)
  have h1: "no_headers ''x-quirrel-signature'' = None"
    by (simp add: no_headers_def)
  have h2: "signed_headers ''bogus'' ''x-quirrel-signature'' = Some (Single ''bogus'') \<and>
            \<not> verify demo_externals ''x'' (token ?c) ''bogus''"
    by (simp add: signed_headers_def demo_externals_def)
  have h3: "signed_headers ?sig ''x-quirrel-signature'' = Some (Single ?sig) \<and>
            verify demo_externals ?b (token ?c) ?sig \<and>
            verify demo_externals ?b (token failing_client) ?sig"
    by (simp add: signed_headers_def demo_externals_def)
  have h4: "decryptAndDecodeBody ?c demo_externals (JStr ?b) empty_world = (Inr (JObj []), empty_world)"
    by (simp add: decryptAndDecodeBody_def demo_client_def getEncryptor_def demo_decrypt_def
        demo_externals_def demo_parse_def)
  have h4': "decryptAndDecodeBody failing_client demo_externals (JStr ?b) empty_world =
               (Inr (JObj []), empty_world)"
    by (simp add: decryptAndDecodeBody_def failing_client_def demo_client_def getEncryptor_def
        demo_decrypt_def demo_externals_def demo_parse_def)
  have h5: "JSON_parse demo_externals
              (case signed_headers ?sig ''x-quirrel-meta'' of
                 Some h \<Rightarrow> header_string h | None \<Rightarrow> ''{}'') = Inr (JObj [])"
    by (simp add: signed_headers_def demo_externals_def demo_parse_def)
  have h6: "destructure_meta (JObj []) = Inr ?m"
    by (simp add: destructure_meta_def property_def)
  have h7: "handler ?c (JObj []) ?m = Inr ()"
    by (simp add: demo_client_def demo_handler_def)
  have h8: "handler failing_client (JObj []) ?m = Inl (Error ''boom'')"
    by (simp add: failing_client_def)
  have s: "String demo_externals (Error ''boom'') = ''Error: boom''"
    by (simp add: demo_externals_def demo_String_def)
  from respondTo_production [OF env, of no_headers ?c "''x''" empty_world] h1
  have a: "respondTo ?c demo_externals ''x'' no_headers empty_world =
     (Inr \<lparr>status = 401, headers = [], body = ''Signature missing''\<rparr>, empty_world)"
    by blast
  from respondTo_production [OF env, of "signed_headers ''bogus''" ?c "''x''" empty_world] h2
  have b: "respondTo ?c demo_externals ''x'' (signed_headers ''bogus'') empty_world =
     (Inr \<lparr>status = 401, headers = [], body = ''Signature invalid''\<rparr>, empty_world)"
    by blast
  from respondTo_production [OF env, of "signed_headers ?sig" ?c ?b empty_world] h3 h4 h5 h6 h7
  have c: "fst (respondTo ?c demo_externals ?b (signed_headers ?sig) empty_world) =
     Inr \<lparr>status = 200, headers = [], body = ''OK''\<rparr>"
    by blast
  from respondTo_production [OF env, of "signed_headers ?sig" failing_client ?b empty_world]
    h3 h4' h5 h6 h8
  have d: "fst (respondTo failing_client demo_externals ?b (signed_headers ?sig) empty_world) =
     Inr \<lparr>status = 500, headers = [], body = String demo_externals (Error ''boom'')\<rparr>"
    by blast
  from a b c d s show ?thesis by simp
qed

section \<open>C4: a ciphertext that no secret decrypts\<close>



section \<open>C5: \<open>repeat\<close> together with \<open>retry\<close>\<close>

text \<open>
  C5. For every options value in which \<^verbatim>\<open>repeat\<close> and a non-empty \<^verbatim>\<open>retry\<close> list are both
  set (and a payload that is not \<^verbatim>\<open>undefined\<close>), normalization fails with
  "retry and repeat cannot be used together", and \<^verbatim>\<open>enqueue\<close> ends with that error without
  touching the registry: the state after it is the state before it.
\<close>

theorem conflicting_schedule:
  assumes "payload \<noteq> JUndefined"
    and "repeat options = Some r"
    and "retry options = Some rs"
    and "rs \<noteq> []"
  shows "payloadAndOptionsToBody c ext now_parse now_delay payload options =
           Inl (Error ''retry and repeat cannot be used together'') \<and>
         enqueue c ext now_parse now_delay payload options w =
           (Inl (Error ''retry and repeat cannot be used together''), w)"
  using assms by (simp add: payloadAndOptionsToBody_def enqueue_def)

theorem conflicting_schedule_witness:
  "enqueue (demo_client ''/jobs'') demo_externals 0 0 (JObj []) conflicting_options two_rows =
     (Inl (Error ''retry and repeat cannot be used together''), two_rows)"
proof -
  have h1: "JObj [] \<noteq> JUndefined" by simp
  have h2: "repeat conflicting_options = Some \<lparr>every = None, times_opt = None, cron = Some ''* * * * *''\<rparr>"
    by (simp add: conflicting_options_def cron_options_def no_options_def)
  have h3: "retry conflicting_options = Some [Str ''5min'']"
    by (simp add: conflicting_options_def cron_options_def no_options_def)
  have h4: "[Str ''5min''] \<noteq> []" by simp
  from conflicting_schedule [OF h1 h2 h3 h4] show ?thesis by simp
qed

section \<open>C6: \<open>runAt\<close> in the past\<close>

text \<open>
  C6. For every options value whose \<^verbatim>\<open>runAt\<close> is strictly before the clock reading taken at
  validation and that reaches the schema, that is, with a payload that is not \<^verbatim>\<open>undefined\<close>
  and without \<^verbatim>\<open>repeat\<close> together with a non-empty \<^verbatim>\<open>retry\<close> (the two rules that section 4.2
  orders before it): normalization fails with a validation error that carries the issue
  "runAt must not be in the past", and \<^verbatim>\<open>enqueue\<close> ends with that error without touching
  the registry: the state after it is the state before it.
\<close>

theorem runAt_in_past:
  assumes "payload \<noteq> JUndefined"
    and "runAt options = Some date"
    and "date < now_parse"
    and "\<not> (repeat options \<noteq> None \<and> (\<exists>rs. retry options = Some rs \<and> rs \<noteq> []))"
  shows "\<exists>issues. payloadAndOptionsToBody c ext now_parse now_delay payload options =
                    Inl (ZodError issues) \<and>
                  ([Key ''runAt''], ''runAt must not be in the past'') \<in> set issues \<and>
                  enqueue c ext now_parse now_delay payload options w = (Inl (ZodError issues), w)"
proof -
  have issue: "([Key ''runAt''], ''runAt must not be in the past'') \<in>
                 set (EnqueueJobOptionsSchema now_parse options)"
    using assms(2,3) by (simp add: EnqueueJobOptionsSchema_def optional_def runAt_schema_def)
  then have nonempty: "EnqueueJobOptionsSchema now_parse options \<noteq> []" by auto
  have "payloadAndOptionsToBody c ext now_parse now_delay payload options =
          Inl (ZodError (EnqueueJobOptionsSchema now_parse options))"
    using assms(1,4) nonempty by (auto simp: normalize_cases split: option.splits)
  with issue enqueue_rejected show ?thesis by auto
qed

text \<open>
  The scenario of the specification: \<^verbatim>\<open>runAt\<close> one hour before the clock reading, on a
  table that holds two entries.
\<close>

theorem runAt_in_past_witness:
  "enqueue (demo_client ''/jobs'') demo_externals 3600000 3600000 (JObj [])
     ((cron_options ''* * * * *'')\<lparr>runAt := Some 0\<rparr>) two_rows =
     (Inl (ZodError [([Key ''runAt''], ''runAt must not be in the past'')]), two_rows)"
proof -
  let ?o = "(cron_options ''* * * * *'')\<lparr>runAt := Some 0\<rparr>"
  have h1: "JObj [] \<noteq> JUndefined" by simp
  have h2: "runAt ?o = Some 0" by simp
  have h3: "(0::int) < 3600000" by simp
  have o_retry: "retry ?o = None" by (simp add: cron_options_def no_options_def)
  then have h4: "\<not> (repeat ?o \<noteq> None \<and> (\<exists>rs. retry ?o = Some rs \<and> rs \<noteq> []))" by simp
  have v: "isValidRegex ''* * * * *''" by (simp add: cron_defs)
  have s: "EnqueueJobOptionsSchema 3600000 ?o = [([Key ''runAt''], ''runAt must not be in the past'')]"
    using v
    by (simp add: EnqueueJobOptionsSchema_def optional_def runAt_schema_def repeat_schema_def
        cron_schema_def cron_options_def no_options_def)
  have n: "payloadAndOptionsToBody (demo_client ''/jobs'') demo_externals 3600000 3600000 (JObj []) ?o =
             Inl (ZodError [([Key ''runAt''], ''runAt must not be in the past'')])"
    by (simp add: normalize_cases s o_retry)
  from runAt_in_past [OF h1 h2 h3 h4, of "demo_client ''/jobs''" demo_externals 3600000 two_rows] n
  show ?thesis by auto
qed

section \<open>C7: the effective delay\<close>

text \<open>
  C7, as amended. For every options value that passes normalization: when \<^verbatim>\<open>runAt\<close> is
  given, the effective delay is \<^verbatim>\<open>runAt\<close> minus the clock reading taken when the delay is
  computed, whatever the \<^verbatim>\<open>delay\<close> option says; \<^verbatim>\<open>runAt\<close> is not before the reading taken at
  validation, and the delay is non-negative whenever the later reading is not after
  \<^verbatim>\<open>runAt\<close>. Otherwise the effective delay is the resolved \<^verbatim>\<open>delay\<close> option: \<^verbatim>\<open>undefined\<close>
  when the option is absent, the number itself, at least 1, for a number, and what \<^verbatim>\<open>ms\<close>
  returns for a string of the duration grammar.
\<close>

theorem effective_delay:
  assumes "payloadAndOptionsToBody c ext now_parse now_delay payload options = Inr b"
  shows "(\<forall>date. runAt options = Some date \<longrightarrow>
            b_delay b = Some (real_of_int (date - now_delay)) \<and> now_parse \<le> date \<and>
            (now_delay \<le> date \<longrightarrow> (\<exists>d. b_delay b = Some d \<and> 0 \<le> d))) \<and>
         (runAt options = None \<longrightarrow> b_delay b = parseDuration (ms ext) (delay options)) \<and>
         (runAt options = None \<and> delay options = None \<longrightarrow> b_delay b = None) \<and>
         (\<forall>n. runAt options = None \<and> delay options = Some (Num n) \<longrightarrow> b_delay b = Some n \<and> 1 \<le> n) \<and>
         (\<forall>s. runAt options = None \<and> delay options = Some (Str s) \<longrightarrow>
            b_delay b = ms ext s \<and> matches vercelMs_regex s)"
proof -
  from assms have ok: "EnqueueJobOptionsSchema now_parse options = []"
    and b: "b_delay b = (case runAt options of
                          Some date \<Rightarrow> Some (runAtToDelay now_delay date)
                        | None \<Rightarrow> parseDuration (ms ext) (delay options))"
    by (auto simp: normalize_cases split: if_splits)
  from ok have d: "optional (timeDuration ''delay'' [Key ''delay'']) (delay options) = []"
    and r: "optional (runAt_schema now_parse [Key ''runAt'']) (runAt options) = []"
    by (simp_all add: EnqueueJobOptionsSchema_def)
  have timed: "\<And>date. runAt options = Some date \<Longrightarrow>
      b_delay b = Some (real_of_int (date - now_delay)) \<and> now_parse \<le> date \<and>
      (now_delay \<le> date \<longrightarrow> (\<exists>d. b_delay b = Some d \<and> 0 \<le> d))"
    using b r by (auto simp: runAtToDelay_def optional_def runAt_schema_def split: if_splits)
  have plain: "runAt options = None \<Longrightarrow> b_delay b = parseDuration (ms ext) (delay options)"
    using b by simp
  have absent: "runAt options = None \<Longrightarrow> delay options = None \<Longrightarrow> b_delay b = None"
    using b by (simp add: parseDuration_def)
  have number: "\<And>n. runAt options = None \<Longrightarrow> delay options = Some (Num n) \<Longrightarrow>
      b_delay b = Some n \<and> 1 \<le> n"
    using b d by (auto simp: parseDuration_def optional_def timeDuration_def split: if_splits)
  have str: "b_delay b = ms ext s \<and> matches vercelMs_regex s"
    if "runAt options = None" and "delay options = Some (Str s)" for s
  proof -
    from d that(2) have m: "matches vercelMs_regex s"
      by (simp add: optional_def timeDuration_def vercelMs_def split: if_splits)
    then have "s \<noteq> []" by (rule vercelMs_regex_nonempty)
    with b that m show ?thesis by (simp add: parseDuration_def)
  qed
  from timed plain absent number str show ?thesis by blast
qed

text \<open>
  With \<^verbatim>\<open>runAt\<close> at 5000, validated at 1000 and resolved at 2000, the delay is 3000 although
  the \<^verbatim>\<open>delay\<close> option says five minutes.
\<close>

theorem effective_delay_witness:
  "map_sum id b_delay
     (payloadAndOptionsToBody (demo_client ''/jobs'') demo_externals 1000 2000 (JObj []) runAt_options) =
     Inr (Some 3000)"
proof -
  have v: "isValidRegex ''* * * * *''" by (simp add: cron_defs)
  have g: "matches vercelMs_regex ''5min''" by (simp add: regex_defs)
  have s: "EnqueueJobOptionsSchema 1000 runAt_options = []"
    using v g
    by (simp add: EnqueueJobOptionsSchema_def optional_def repeat_schema_def cron_schema_def
        runAt_schema_def timeDuration_def vercelMs_def runAt_options_def cron_options_def
        no_options_def)
  have r: "retry runAt_options = None" "runAt runAt_options = Some 5000"
    by (simp_all add: runAt_options_def cron_options_def no_options_def)
  obtain b where n: "payloadAndOptionsToBody (demo_client ''/jobs'') demo_externals 1000 2000 (JObj [])
                       runAt_options = Inr b"
    by (simp add: normalize_cases s r)
  from effective_delay [OF n] r(2) have "b_delay b = Some (real_of_int (5000 - 2000))" by blast
  with n show ?thesis by simp
qed

text \<open>
  The claim as stated fails twice. Without \<^verbatim>\<open>delay\<close> and \<^verbatim>\<open>runAt\<close> the effective delay is
  \<^verbatim>\<open>undefined\<close>, not 0. And a \<^verbatim>\<open>runAt\<close> equal to the reading at validation gives the delay
  \<open>-1\<close> when the clock has advanced by a millisecond before the delay is computed.
\<close>

theorem effective_delay_counterexample:
  "map_sum id b_delay
     (payloadAndOptionsToBody (demo_client ''/jobs'') demo_externals 1000 1000 (JObj [])
        (cron_options ''* * * * *'')) = Inr None \<and>
   map_sum id b_delay
     (payloadAndOptionsToBody (demo_client ''/jobs'') demo_externals 1000 1001 (JObj [])
        ((cron_options ''* * * * *'')\<lparr>runAt := Some 1000\<rparr>)) = Inr (Some (- 1))"
proof -
  have v: "isValidRegex ''* * * * *''" by (simp add: cron_defs)
  have s1: "EnqueueJobOptionsSchema 1000 (cron_options ''* * * * *'') = []"
    using v by (rule demo_schema_cron)
  have s2: "EnqueueJobOptionsSchema 1000 ((cron_options ''* * * * *'')\<lparr>runAt := Some 1000\<rparr>) = []"
    using v
    by (simp add: EnqueueJobOptionsSchema_def optional_def repeat_schema_def cron_schema_def
        runAt_schema_def cron_options_def no_options_def)
  have r: "retry (cron_options ''* * * * *'') = None" "runAt (cron_options ''* * * * *'') = None"
      "delay (cron_options ''* * * * *'') = None"
      "retry ((cron_options ''* * * * *'')\<lparr>runAt := Some 1000\<rparr>) = None"
    by (simp_all add: cron_options_def no_options_def)
  show ?thesis
    by (simp add: normalize_cases s1 s2 r parseDuration_def runAtToDelay_def)
qed

section \<open>C8: \<open>deleteAll\<close>\<close>

text \<open>
  C8, as amended. With a database URL configured, \<^verbatim>\<open>deleteAll\<close> removes every entry of the
  registry table, whichever client registered it, and returns \<^verbatim>\<open>undefined\<close>. When at least
  one entry was removed it writes the number removed to the console. A listing by any
  client afterwards yields no entries.
\<close>

theorem deleteAll_cleanup:
  assumes "prisma c = Inr ()"
  shows "fst (deleteAll c w) = Inr JUndefined \<and>
         job_table (snd (deleteAll c w)) = [] \<and>
         console (snd (deleteAll c w)) =
           console w @
             (if 0 < length (job_table w)
              then [Log (''Deleted '' @ decimal (length (job_table w)) @ '' job(s) during cleanup'')]
              else []) \<and>
         (prisma c' = Inr () \<longrightarrow> fst (get c' ext (snd (deleteAll c w))) = Inr [])"
  using assms by (simp add: deleteAll_world get_def)

text \<open>
  The scenario of the specification: three jobs are registered, then the client of the
  shutdown hook calls \<^verbatim>\<open>deleteAll\<close>.
\<close>

theorem deleteAll_cleanup_witness:
  "fst (deleteAll (demo_client ''/doesnt-matter'') three_jobs) = Inr JUndefined \<and>
   job_table (snd (deleteAll (demo_client ''/doesnt-matter'') three_jobs)) = [] \<and>
   last (console (snd (deleteAll (demo_client ''/doesnt-matter'') three_jobs))) =
     Log ''Deleted 3 job(s) during cleanup'' \<and>
   fst (get (demo_client ''/a'') demo_externals
          (snd (deleteAll (demo_client ''/doesnt-matter'') three_jobs))) = Inr []"
proof -
  have d: "decimal 3 = ''3''" by (simp add: decimal_def)
  from deleteAll_cleanup [OF demo_prisma, of "''/doesnt-matter''" three_jobs "demo_client ''/a''"
      demo_externals]
    demo_prisma [of "''/a''"] three_jobs_length d
  show ?thesis by simp
qed

text \<open>
  The claim as stated fails: with three entries in the table, \<^verbatim>\<open>deleteAll\<close> returns
  \<^verbatim>\<open>undefined\<close>, not the number 3.
\<close>

theorem deleteAll_cleanup_counterexample:
  "length (job_table three_jobs) = 3 \<and>
   fst (deleteAll (demo_client ''/doesnt-matter'') three_jobs) = Inr JUndefined"
proof -
  have "fst (deleteAll (demo_client ''/doesnt-matter'') three_jobs) = Inr JUndefined"
    by (simp add: deleteAll_world demo_prisma)
  with three_jobs_length show ?thesis by simp
qed

section \<open>C9: the duration resolver\<close>

text \<open>
  C9. An absent duration resolves to \<^verbatim>\<open>undefined\<close>. A number of at least 1 resolves to
  itself, and a number below 1 is rejected by the schema with the issue
  "<field> must be positive". A string resolves to what \<^verbatim>\<open>ms\<close> returns for it exactly
  when it matches the duration grammar, and is rejected with the issue of \<^verbatim>\<open>vercelMs\<close>
  otherwise.
\<close>

theorem duration_resolver:
  "resolveDuration m f None = Inr None \<and>
   (\<forall>n. 1 \<le> n \<longrightarrow> resolveDuration m f (Some (Num n)) = Inr (Some n)) \<and>
   (\<forall>n. n < 1 \<longrightarrow>
      resolveDuration m f (Some (Num n)) = Inl (ZodError [([Key f], f @ '' must be positive'')])) \<and>
   (\<forall>s. matches vercelMs_regex s \<longrightarrow> resolveDuration m f (Some (Str s)) = Inr (m s)) \<and>
   (\<forall>s. \<not> matches vercelMs_regex s \<longrightarrow>
      resolveDuration m f (Some (Str s)) = Inl (ZodError [([Key f], vercelMs_message)]))"
proof -
  have absent: "resolveDuration m f None = Inr None"
    by (simp add: resolveDuration_def optional_def parseDuration_def)
  have big: "\<And>n. 1 \<le> n \<Longrightarrow> resolveDuration m f (Some (Num n)) = Inr (Some n)"
    by (simp add: resolveDuration_def optional_def parseDuration_def timeDuration_def)
  have small: "\<And>n. n < 1 \<Longrightarrow>
      resolveDuration m f (Some (Num n)) = Inl (ZodError [([Key f], f @ '' must be positive'')])"
    by (simp add: resolveDuration_def optional_def timeDuration_def)
  have good: "\<And>s. matches vercelMs_regex s \<Longrightarrow> resolveDuration m f (Some (Str s)) = Inr (m s)"
    using vercelMs_regex_nonempty
    by (simp add: resolveDuration_def optional_def parseDuration_def timeDuration_def vercelMs_def)
  have bad: "\<And>s. \<not> matches vercelMs_regex s \<Longrightarrow>
      resolveDuration m f (Some (Str s)) = Inl (ZodError [([Key f], vercelMs_message)])"
    by (simp add: resolveDuration_def optional_def timeDuration_def vercelMs_def)
  from absent big small good bad show ?thesis by blast
qed

theorem duration_resolver_witness:
  "resolveDuration demo_ms ''delay'' None = Inr None \<and>
   resolveDuration demo_ms ''delay'' (Some (Num 5)) = Inr (Some 5) \<and>
   resolveDuration demo_ms ''delay'' (Some (Num 0)) =
     Inl (ZodError [([Key ''delay''], ''delay must be positive'')]) \<and>
   resolveDuration demo_ms ''delay'' (Some (Str ''5min'')) = Inr (Some 300000) \<and>
   resolveDuration demo_ms ''delay'' (Some (Str ''soon'')) =
     Inl (ZodError [([Key ''delay''], vercelMs_message)])"
proof -
  have h1: "(1::real) \<le> 5" by simp
  have h2: "(0::real) < 1" by simp
  have h3: "matches vercelMs_regex ''5min''" by (simp add: regex_defs)
  have h4: "\<not> matches vercelMs_regex ''soon''" by (simp add: regex_defs)
  have v: "demo_ms ''5min'' = Some 300000" by (simp add: demo_ms_def)
  from duration_resolver [of demo_ms "''delay''"] h1 h2 h3 h4 v show ?thesis by simp
qed

section \<open>C10: deleting by id\<close>

text \<open>
  C10. For every string id other than \<^verbatim>\<open>"@cron"\<close>, \<^verbatim>\<open>delete\<close> throws
  "Invalid job id for delete: <id>" and leaves the registry as it was. With a database
  URL configured, the sentinel \<^verbatim>\<open>"@cron"\<close> deletes by the route's derived name and a
  numeric id deletes by \<^verbatim>\<open>jobid\<close>; both return whether an entry was removed.
\<close>

theorem delete_by_id:
  "(\<forall>s. s \<noteq> ''@cron'' \<longrightarrow>
      delete c (IdString s) w = (Inl (Error (''Invalid job id for delete: '' @ s)), w)) \<and>
   (prisma c = Inr () \<longrightarrow>
      fst (delete c (IdString ''@cron'') w) = Inr (\<exists>j\<in>set (job_table w). jobname j = jobName c) \<and>
      job_table (snd (delete c (IdString ''@cron'') w)) =
        filter (\<lambda>j. jobname j \<noteq> jobName c) (job_table w) \<and>
      (\<forall>n. fst (delete c (IdNumber n) w) = Inr (\<exists>j\<in>set (job_table w). jobid j = n) \<and>
           job_table (snd (delete c (IdNumber n) w)) = filter (\<lambda>j. jobid j \<noteq> n) (job_table w)))"
proof -
  have other: "\<And>s. s \<noteq> ''@cron'' \<Longrightarrow>
      delete c (IdString s) w = (Inl (Error (''Invalid job id for delete: '' @ s)), w)"
    by (simp add: delete_def)
  have sentinel: "prisma c = Inr () \<Longrightarrow>
      fst (delete c (IdString ''@cron'') w) = Inr (\<exists>j\<in>set (job_table w). jobname j = jobName c) \<and>
      job_table (snd (delete c (IdString ''@cron'') w)) =
        filter (\<lambda>j. jobname j \<noteq> jobName c) (job_table w)"
    by (simp add: delete_def deleteExisting_def deleteMany_def filter_empty_conv)
  have numeric: "\<And>n. prisma c = Inr () \<Longrightarrow>
      fst (delete c (IdNumber n) w) = Inr (\<exists>j\<in>set (job_table w). jobid j = n) \<and>
      job_table (snd (delete c (IdNumber n) w)) = filter (\<lambda>j. jobid j \<noteq> n) (job_table w)"
    by (simp add: delete_def deleteMany_def filter_empty_conv)
  from other sentinel numeric show ?thesis by blast
qed

theorem delete_by_id_witness:
  "delete (demo_client ''/jobs'') (IdString ''abc'') two_rows =
     (Inl (Error ''Invalid job id for delete: abc''), two_rows) \<and>
   fst (delete (demo_client ''/jobs'') (IdString ''@cron'') two_rows) = Inr True \<and>
   fst (delete (demo_client ''/jobs'') (IdNumber 2) two_rows) = Inr True \<and>
   fst (delete (demo_client ''/jobs'') (IdNumber 7) two_rows) = Inr False"
proof -
  have h1: "''abc'' \<noteq> ''@cron''" by simp
  have h2: "prisma (demo_client ''/jobs'') = Inr ()"
    by (simp add: prisma_def demo_client_def)
  have t: "job_table two_rows =
       [\<lparr>jobid = 1, schedule = ''* * * * *'', command = [], jobname = ''cron-job:/jobs'', active = True\<rparr>,
        \<lparr>jobid = 2, schedule = ''0 * * * *'', command = [], jobname = ''cron-job:/other'', active = True\<rparr>]"
    by (simp add: two_rows_def empty_world_def)
  have n: "jobName (demo_client ''/jobs'') = ''cron-job:/jobs''"
    by (simp add: jobName_def demo_client_def)
  from delete_by_id [of "demo_client ''/jobs''" two_rows] h1 h2 show ?thesis
    by (simp add: t n)
qed

end
